theory Spec2Isabelle
  imports Complex_Main "HOL-Library.AList"
begin

section \<open>Data model\<close>

text \<open>
  The embedding follows \<^verbatim>\<open>nifty50_options_trading.py\<close> (class Nifty50OptionsTrader),
  \<^verbatim>\<open>nifty50_intraday_trading.py\<close> (class IntradayNifty50Trader) and
  \<^verbatim>\<open>nifty50_intraday_ce_pe_trading.py\<close> (class EnhancedIntradayNifty50Trader).

  Conventions of the model:
  \<^item> Prices, percentages, balances and P&L are finite Python floats, held as the real
    numbers they denote. The trailing-stop checks and the IEEE version of position sizing
    compute as the source does, in IEEE doubles with rounding, overflow to infinity and
    NaN; the remaining arithmetic (stop and target prices, P&L, the daily loss limit, the
    exact version of position sizing) is exact.
  \<^item> A naive \<^verbatim>\<open>datetime\<close> is an \<open>int\<close>, the number of microseconds since the start of
    the calendar; a \<^verbatim>\<open>timedelta\<close> is an \<open>int\<close> number of microseconds; a \<^verbatim>\<open>date\<close> is an
    \<open>int\<close> day number. Building a \<^verbatim>\<open>timedelta\<close> or adding one to a \<^verbatim>\<open>datetime\<close> fails
    outside the range of these types, as in the source.
  \<^item> The action of an order is the string "BUY" or "SELL" in the source;
    \<^verbatim>\<open>place_option_order\<close> rejects every other string before anything is stored, so the
    model uses a two-valued datatype.
  \<^item> A dict is an association list with distinct keys, in insertion order.
  \<^item> A function whose \<^verbatim>\<open>except Exception\<close> clause turns a raise into a return value has
    that return value as a branch; database writes (which catch their own errors) and
    logging are left out.
\<close>

datatype OptionType = CALL | PUT

datatype action = BUY | SELL

text \<open>
  \<^verbatim>\<open>OptionContract\<close>. The display symbol is not read by any modelled function and is left
  out; \<^verbatim>\<open>contract_id\<close> is the f-string of underlying, strike, type and expiry, modelled as
  that tuple. Strikes are compared as numbers: a strike is taken to be written the same
  way, as an int or as a float, wherever it occurs (the f-strings of 25000 and of 25000.0
  differ).
\<close>

record OptionContract =
  c_strike_price :: real
  c_option_type :: OptionType
  expiry_date :: int
  lot_size :: int
  underlying :: string

type_synonym contract_key = "string \<times> real \<times> OptionType \<times> int"

definition contract_id :: "OptionContract \<Rightarrow> contract_key" where
  "contract_id c = (underlying c, c_strike_price c, c_option_type c, expiry_date c)"

text \<open>
  \<^verbatim>\<open>CE_PE_TradeSetup\<close> after \<^verbatim>\<open>__post_init__\<close>. \<^verbatim>\<open>IntradayTradeSetup\<close> has the same fields
  without \<open>option_type\<close>, \<open>strike_price\<close> and \<open>is_spread_trade\<close>, which the intraday
  functions never read, so one record serves both classes. The tags \<^verbatim>\<open>strategy\<close>,
  \<^verbatim>\<open>time_slot\<close> and \<^verbatim>\<open>spread_legs\<close> are carried unchanged by the source and read by no
  modelled function; they are left out.
\<close>

record TradeSetup =
  entry_price :: real
  stop_loss :: real
  target_price :: real
  quantity :: int
  entry_time :: int
  max_holding_time :: int
  exit_time :: int
  risk_reward_ratio :: real
  max_loss :: real
  max_profit :: real
  intraday_stop_loss :: real
  trailing_stop :: bool
  trailing_stop_percentage :: real
  option_type :: OptionType
  strike_price :: real
  is_spread_trade :: bool
  risk :: real
  reward :: real

text \<open>
  The dataclass constructor followed by \<^verbatim>\<open>__post_init__\<close>: the three derived arguments
  (risk_reward_ratio, max_loss, max_profit) are overwritten, \<open>exit_time\<close> is filled in
  when the argument is None. No argument is validated.
\<close>

definition make_setup ::
  "real \<Rightarrow> real \<Rightarrow> real \<Rightarrow> int \<Rightarrow> int \<Rightarrow> int \<Rightarrow> int option \<Rightarrow> real \<Rightarrow> bool \<Rightarrow> real
     \<Rightarrow> OptionType \<Rightarrow> real \<Rightarrow> bool \<Rightarrow> TradeSetup" where
  "make_setup entry stop target qty etime hold xtime istop trail trail_pct otype strike spread =
     (let risk' = \<bar>entry - stop\<bar>;
          reward' = \<bar>target - entry\<bar>
      in \<lparr> entry_price = entry, stop_loss = stop, target_price = target, quantity = qty,
           entry_time = etime, max_holding_time = hold,
           exit_time = (case xtime of None \<Rightarrow> etime + hold | Some t \<Rightarrow> t),
           risk_reward_ratio = (if risk' > 0 then reward' / risk' else 0),
           max_loss = risk' * real_of_int qty * 50,
           max_profit = reward' * real_of_int qty * 50,
           intraday_stop_loss = istop, trailing_stop = trail,
           trailing_stop_percentage = trail_pct, option_type = otype,
           strike_price = strike, is_spread_trade = spread,
           risk = risk', reward = reward' \<rparr>)"

text \<open>
  The dict stored in \<^verbatim>\<open>intraday_positions\<close> (keys trade_id, contract, action, quantity,
  entry_price, stop_loss, target_price, entry_time, setup, is_spread). The intraday
  trader stores no \<^verbatim>\<open>is_spread\<close> key and never reads it.
\<close>

record position =
  p_trade_id :: string
  p_contract :: OptionContract
  p_action :: action
  p_quantity :: int
  p_entry_price :: real
  p_stop_loss :: real
  p_target_price :: real
  p_entry_time :: int
  p_setup :: TradeSetup
  p_is_spread :: bool

text \<open>One element of the list returned by the monitor functions.\<close>

record exit_decision =
  d_trade_id :: string
  d_reason :: string
  d_current_price :: real
  d_position :: position

section \<open>IEEE double arithmetic\<close>

text \<open>
  A Python float is an IEEE binary64 value: a finite double, an infinity or NaN. A finite
  double is represented by the real number it denotes; the sign of zero, which no
  modelled function can observe, is left out. Each operation computes the exact result
  and rounds it. A real argument of a function that computes in doubles stands for the
  double nearest to it (\<open>round_double\<close>), as a decimal literal does in the source.
\<close>

datatype pyfloat = Finite real | PlusInf | MinusInf | NaN

text \<open>Powers of two with an integer exponent.\<close>


definition pow2 :: "int \<Rightarrow> real" where
  "pow2 e = 2 powi e"

text \<open>Rounding a real to the nearest integer, ties to the even one.\<close>

definition round_half_even :: "real \<Rightarrow> int" where
  "round_half_even q =
     (let n = \<lfloor>q\<rfloor>; d = q - of_int n
      in if d < 1 / 2 then n else if 1 / 2 < d then n + 1 else if even n then n else n + 1)"

text \<open>
  The exponent e with 2^e \<le> a < 2^(e+1), found by halving or doubling at most n times;
  \<open>double_exponent\<close> is the exponent of the binade that \<open>a \<ge> 0\<close> falls in, the
  subnormal range sharing the exponent -1022 and everything from 2^1024 on taking 1023.
\<close>

fun binade :: "nat \<Rightarrow> real \<Rightarrow> int" where
  "binade 0 a = 0"
| "binade (Suc n) a =
     (if 2 \<le> a then binade n (a / 2) + 1 else if a < 1 then binade n (a * 2) - 1 else 0)"

definition double_exponent :: "real \<Rightarrow> int" where
  "double_exponent a =
     (if a < pow2 (- 1022) then - 1022
      else if pow2 1024 \<le> a then 1023
      else binade 1024 a)"

text \<open>
  Round to nearest, ties to even, with a significand of 53 bits: a magnitude is rounded
  to a multiple of the unit in the last place of its binade. A magnitude that rounds to
  2^1024 overflows to an infinity.
\<close>

definition round_magnitude :: "real \<Rightarrow> real" where
  "round_magnitude a =
     (let ulp = pow2 (double_exponent a - 52)
      in of_int (round_half_even (a / ulp)) * ulp)"

definition round_double :: "real \<Rightarrow> pyfloat" where
  "round_double x =
     (let r = round_magnitude \<bar>x\<bar>
      in if pow2 1024 \<le> r then (if 0 < x then PlusInf else MinusInf)
         else Finite (if x < 0 then - r else r))"


text \<open>The largest finite double.\<close>

definition max_double :: real where
  "max_double = pow2 1024 - pow2 971"

text \<open>The arithmetic operations, comparisons and \<^verbatim>\<open>abs\<close> of Python floats.\<close>

fun fneg :: "pyfloat \<Rightarrow> pyfloat" where
  "fneg (Finite x) = Finite (- x)"
| "fneg PlusInf = MinusInf"
| "fneg MinusInf = PlusInf"
| "fneg NaN = NaN"

fun fabs :: "pyfloat \<Rightarrow> pyfloat" where
  "fabs (Finite x) = Finite \<bar>x\<bar>"
| "fabs PlusInf = PlusInf"
| "fabs MinusInf = PlusInf"
| "fabs NaN = NaN"

fun fadd :: "pyfloat \<Rightarrow> pyfloat \<Rightarrow> pyfloat" where
  "fadd (Finite x) (Finite y) = round_double (x + y)"
| "fadd NaN b = NaN"
| "fadd a NaN = NaN"
| "fadd PlusInf MinusInf = NaN"
| "fadd MinusInf PlusInf = NaN"
| "fadd PlusInf b = PlusInf"
| "fadd MinusInf b = MinusInf"
| "fadd a PlusInf = PlusInf"
| "fadd a MinusInf = MinusInf"

definition fsub :: "pyfloat \<Rightarrow> pyfloat \<Rightarrow> pyfloat" where
  "fsub a b = fadd a (fneg b)"

text \<open>The sign of a product or quotient with an infinite operand.\<close>

definition signed_inf :: "bool \<Rightarrow> pyfloat" where
  "signed_inf positive = (if positive then PlusInf else MinusInf)"

fun fmul :: "pyfloat \<Rightarrow> pyfloat \<Rightarrow> pyfloat" where
  "fmul (Finite x) (Finite y) = round_double (x * y)"
| "fmul NaN b = NaN"
| "fmul a NaN = NaN"
| "fmul (Finite x) PlusInf = (if x = 0 then NaN else signed_inf (0 < x))"
| "fmul (Finite x) MinusInf = (if x = 0 then NaN else signed_inf (x < 0))"
| "fmul PlusInf (Finite y) = (if y = 0 then NaN else signed_inf (0 < y))"
| "fmul MinusInf (Finite y) = (if y = 0 then NaN else signed_inf (y < 0))"
| "fmul PlusInf PlusInf = PlusInf"
| "fmul MinusInf MinusInf = PlusInf"
| "fmul PlusInf MinusInf = MinusInf"
| "fmul MinusInf PlusInf = MinusInf"

text \<open>Division: None is the ZeroDivisionError that Python raises for a zero divisor.\<close>

fun fdiv :: "pyfloat \<Rightarrow> pyfloat \<Rightarrow> pyfloat option" where
  "fdiv a (Finite y) =
     (if y = 0 then None
      else case a of
             Finite x \<Rightarrow> Some (round_double (x / y))
           | PlusInf \<Rightarrow> Some (signed_inf (0 < y))
           | MinusInf \<Rightarrow> Some (signed_inf (y < 0))
           | NaN \<Rightarrow> Some NaN)"
| "fdiv (Finite x) b = Some (case b of NaN \<Rightarrow> NaN | _ \<Rightarrow> Finite 0)"
| "fdiv a b = Some NaN"

fun fle :: "pyfloat \<Rightarrow> pyfloat \<Rightarrow> bool" where
  "fle (Finite x) (Finite y) = (x \<le> y)"
| "fle NaN b = False"
| "fle a NaN = False"
| "fle MinusInf b = True"
| "fle a PlusInf = True"
| "fle a b = False"

definition fge :: "pyfloat \<Rightarrow> pyfloat \<Rightarrow> bool" where
  "fge a b = fle b a"

text \<open>\<^verbatim>\<open>int(x)\<close>: truncation; None is the OverflowError (infinity) or ValueError (NaN).\<close>

fun int_of_float :: "pyfloat \<Rightarrow> int option" where
  "int_of_float (Finite x) = Some (if 0 \<le> x then \<lfloor>x\<rfloor> else \<lceil>x\<rceil>)"
| "int_of_float a = None"

section \<open>Exit evaluation (CE/PE trader)\<close>

definition should_exit_ce_pe_stop_loss :: "position \<Rightarrow> real \<Rightarrow> bool" where
  "should_exit_ce_pe_stop_loss pos current_price =
     (if p_action pos = BUY then current_price \<le> stop_loss (p_setup pos)
      else current_price \<ge> stop_loss (p_setup pos))"

definition should_exit_ce_pe_target :: "position \<Rightarrow> real \<Rightarrow> bool" where
  "should_exit_ce_pe_target pos current_price =
     (if p_action pos = BUY then current_price \<ge> target_price (p_setup pos)
      else current_price \<le> target_price (p_setup pos))"

definition should_exit_time_based :: "position \<Rightarrow> int \<Rightarrow> bool" where
  "should_exit_time_based pos current_time = (current_time \<ge> exit_time (p_setup pos))"

text \<open>
  The trailing-stop level is computed in doubles: the subtraction (or addition) and the
  multiplication each round, and the price is compared with the rounded product.
\<close>

definition should_exit_trailing_stop :: "position \<Rightarrow> real \<Rightarrow> bool" where
  "should_exit_trailing_stop pos current_price =
     (if \<not> trailing_stop (p_setup pos) then False
      else if p_action pos = BUY
        then (let ts = fmul (round_double current_price)
                         (fsub (Finite 1)
                            (round_double (trailing_stop_percentage (p_setup pos))))
              in fle (round_double current_price) ts)
        else (let ts = fmul (round_double current_price)
                         (fadd (Finite 1)
                            (round_double (trailing_stop_percentage (p_setup pos))))
              in fge (round_double current_price) ts))"

text \<open>
  The body of the loop of \<^verbatim>\<open>monitor_ce_pe_positions\<close>: one if/elif chain per position,
  appending at most one dict.
\<close>

definition ce_pe_exit_check :: "string \<Rightarrow> position \<Rightarrow> real \<Rightarrow> int \<Rightarrow> exit_decision option" where
  "ce_pe_exit_check trade_id pos current_price current_time =
     (if should_exit_ce_pe_stop_loss pos current_price then
        Some \<lparr> d_trade_id = trade_id, d_reason = ''STOP_LOSS'',
               d_current_price = current_price, d_position = pos \<rparr>
      else if should_exit_ce_pe_target pos current_price then
        Some \<lparr> d_trade_id = trade_id, d_reason = ''TARGET_HIT'',
               d_current_price = current_price, d_position = pos \<rparr>
      else if should_exit_time_based pos current_time then
        Some \<lparr> d_trade_id = trade_id, d_reason = ''TIME_BASED'',
               d_current_price = current_price, d_position = pos \<rparr>
      else if should_exit_trailing_stop pos current_price then
        Some \<lparr> d_trade_id = trade_id, d_reason = ''TRAILING_STOP'',
               d_current_price = current_price, d_position = pos \<rparr>
      else None)"

fun monitor_ce_pe_loop :: "(string \<times> position) list \<Rightarrow> real \<Rightarrow> int \<Rightarrow> exit_decision list" where
  "monitor_ce_pe_loop [] current_price current_time = []"
| "monitor_ce_pe_loop ((trade_id, pos) # rest) current_price current_time =
     (case ce_pe_exit_check trade_id pos current_price current_time of
        None \<Rightarrow> monitor_ce_pe_loop rest current_price current_time
      | Some d \<Rightarrow> d # monitor_ce_pe_loop rest current_price current_time)"

section \<open>Exit evaluation (intraday trader)\<close>

definition should_exit_intraday_stop_loss :: "position \<Rightarrow> real \<Rightarrow> bool" where
  "should_exit_intraday_stop_loss pos current_price =
     (if p_action pos = BUY then current_price \<le> stop_loss (p_setup pos)
      else current_price \<ge> stop_loss (p_setup pos))"

definition should_exit_intraday_target :: "position \<Rightarrow> real \<Rightarrow> bool" where
  "should_exit_intraday_target pos current_price =
     (if p_action pos = BUY then current_price \<ge> target_price (p_setup pos)
      else current_price \<le> target_price (p_setup pos))"

definition intraday_should_exit_time_based :: "position \<Rightarrow> int \<Rightarrow> bool" where
  "intraday_should_exit_time_based pos current_time = (current_time \<ge> exit_time (p_setup pos))"

definition intraday_should_exit_trailing_stop :: "position \<Rightarrow> real \<Rightarrow> bool" where
  "intraday_should_exit_trailing_stop pos current_price =
     (if \<not> trailing_stop (p_setup pos) then False
      else if p_action pos = BUY
        then (let ts = fmul (round_double current_price)
                         (fsub (Finite 1)
                            (round_double (trailing_stop_percentage (p_setup pos))))
              in fle (round_double current_price) ts)
        else (let ts = fmul (round_double current_price)
                         (fadd (Finite 1)
                            (round_double (trailing_stop_percentage (p_setup pos))))
              in fge (round_double current_price) ts))"

definition intraday_exit_check :: "string \<Rightarrow> position \<Rightarrow> real \<Rightarrow> int \<Rightarrow> exit_decision option" where
  "intraday_exit_check trade_id pos current_price current_time =
     (if should_exit_intraday_stop_loss pos current_price then
        Some \<lparr> d_trade_id = trade_id, d_reason = ''STOP_LOSS'',
               d_current_price = current_price, d_position = pos \<rparr>
      else if should_exit_intraday_target pos current_price then
        Some \<lparr> d_trade_id = trade_id, d_reason = ''TARGET_HIT'',
               d_current_price = current_price, d_position = pos \<rparr>
      else if intraday_should_exit_time_based pos current_time then
        Some \<lparr> d_trade_id = trade_id, d_reason = ''TIME_BASED'',
               d_current_price = current_price, d_position = pos \<rparr>
      else if intraday_should_exit_trailing_stop pos current_price then
        Some \<lparr> d_trade_id = trade_id, d_reason = ''TRAILING_STOP'',
               d_current_price = current_price, d_position = pos \<rparr>
      else None)"

fun monitor_intraday_loop :: "(string \<times> position) list \<Rightarrow> real \<Rightarrow> int \<Rightarrow> exit_decision list" where
  "monitor_intraday_loop [] current_price current_time = []"
| "monitor_intraday_loop ((trade_id, pos) # rest) current_price current_time =
     (case intraday_exit_check trade_id pos current_price current_time of
        None \<Rightarrow> monitor_intraday_loop rest current_price current_time
      | Some d \<Rightarrow> d # monitor_intraday_loop rest current_price current_time)"

section \<open>Sizing a position\<close>

text \<open>Python's \<^verbatim>\<open>int(x)\<close> on a float truncates towards zero.\<close>

definition py_int :: "real \<Rightarrow> int" where
  "py_int x = (if 0 \<le> x then \<lfloor>x\<rfloor> else \<lceil>x\<rceil>)"

text \<open>The local \<^verbatim>\<open>risk_per_lot\<close> of \<^verbatim>\<open>calculate_position_size\<close>; 50 is the lot size.\<close>

definition risk_per_lot :: "real \<Rightarrow> real \<Rightarrow> real" where
  "risk_per_lot entry stop = \<bar>entry - stop\<bar> * 50"

text \<open>
  \<^verbatim>\<open>calculate_position_size\<close> reads \<^verbatim>\<open>self.account_balance\<close>, the first argument here.
  The division by \<^verbatim>\<open>entry_price * 50\<close> raises ZeroDivisionError when that product is
  zero; the \<^verbatim>\<open>except\<close> clause of the function then returns 1.
\<close>

definition calculate_position_size :: "real \<Rightarrow> real \<Rightarrow> real \<Rightarrow> real \<Rightarrow> int" where
  "calculate_position_size balance entry stop risk_amount =
     (if risk_per_lot entry stop \<le> 0 then 0
      else
        let position_size = py_int (risk_amount / risk_per_lot entry stop);
            position_size = (if position_size < 1 then 1 else position_size)
        in if entry * 50 = 0 then 1
           else
             let max_lots_by_balance = py_int (balance * 0.1 / (entry * 50))
             in min position_size max_lots_by_balance)"

text \<open>
  The definitions above are \<^verbatim>\<open>calculate_position_size\<close> in exact arithmetic. The ones
  below are the same function as it computes, in doubles. A double is a real that rounds
  to itself.
\<close>

definition is_double :: "real \<Rightarrow> bool" where
  "is_double x \<longleftrightarrow> round_double x = Finite x"

text \<open>\<^verbatim>\<open>abs(entry_price - stop_loss) * 50\<close>.\<close>

definition risk_per_lot_ieee :: "real \<Rightarrow> real \<Rightarrow> pyfloat" where
  "risk_per_lot_ieee entry stop =
     fmul (fabs (fsub (round_double entry) (round_double stop))) (Finite 50)"

text \<open>
  \<^verbatim>\<open>int(risk_amount / risk_per_lot)\<close> and
  \<^verbatim>\<open>int(self.account_balance * 0.1 / (entry_price * 50))\<close>; None is an exception raised by
  the division (ZeroDivisionError) or by \<^verbatim>\<open>int\<close> (OverflowError, ValueError).
\<close>

definition lots_by_risk :: "real \<Rightarrow> real \<Rightarrow> real \<Rightarrow> int option" where
  "lots_by_risk entry stop risk_amount =
     (case fdiv (round_double risk_amount) (risk_per_lot_ieee entry stop) of
        None \<Rightarrow> None
      | Some q \<Rightarrow> int_of_float q)"

definition lots_by_balance :: "real \<Rightarrow> real \<Rightarrow> int option" where
  "lots_by_balance balance entry =
     (case fdiv (fmul (round_double balance) (round_double 0.1))
                (fmul (round_double entry) (Finite 50)) of
        None \<Rightarrow> None
      | Some q \<Rightarrow> int_of_float q)"

text \<open>
  The body of \<^verbatim>\<open>calculate_position_size\<close> is one \<^verbatim>\<open>try\<close> block whose
  \<^verbatim>\<open>except Exception\<close> clause returns 1, whatever was raised and wherever.
\<close>

definition calculate_position_size_ieee :: "real \<Rightarrow> real \<Rightarrow> real \<Rightarrow> real \<Rightarrow> int" where
  "calculate_position_size_ieee balance entry stop risk_amount =
     (if fle (risk_per_lot_ieee entry stop) (Finite 0) then 0
      else
        case lots_by_risk entry stop risk_amount of
          None \<Rightarrow> 1
        | Some n \<Rightarrow>
            (let position_size = (if n < 1 then 1 else n)
             in case lots_by_balance balance entry of
                  None \<Rightarrow> 1
                | Some max_lots_by_balance \<Rightarrow> min position_size max_lots_by_balance))"

section \<open>Trader state\<close>

text \<open>An entry of \<^verbatim>\<open>current_positions\<close> (quantity and average price; timestamps left out).\<close>

record holding =
  h_quantity :: int
  h_average_price :: real

record OptionTrade =
  t_contract :: OptionContract
  t_action :: action
  t_quantity :: int
  t_price :: real
  t_timestamp :: int
  t_trade_id :: string
  t_status :: string

record exit_record =
  x_trade_id :: string
  x_exit_time :: int
  x_exit_price :: real
  x_exit_reason :: string
  x_pnl :: real
  x_holding_duration :: real

text \<open>
  The attributes of the trader objects. IntradayNifty50Trader has the attributes up to
  \<open>daily_pnl\<close> (without the spread and CE/PE caps); EnhancedIntradayNifty50Trader adds
  the three counters and their caps. The functions of the intraday trader leave the
  additional attributes alone. An element of \<open>intraday_trades\<close> is the merged dict
  \<^verbatim>\<open>{**position, **exit_record}\<close>, kept as a pair.
\<close>

record trader =
  account_balance :: real
  current_positions :: "(contract_key \<times> holding) list"
  trade_history :: "OptionTrade list"
  max_intraday_risk :: real
  max_intraday_positions :: int
  intraday_stop_loss_percentage :: real
  intraday_target_percentage :: real
  max_holding_hours :: int
  max_spread_positions :: int
  max_ce_positions :: int
  max_pe_positions :: int
  spread_risk_multiplier :: real
  intraday_positions :: "(string \<times> position) list"
  intraday_trades :: "(position \<times> exit_record) list"
  daily_pnl :: real
  ce_positions :: int
  pe_positions :: int
  spread_positions :: int

text \<open>The state built by \<^verbatim>\<open>EnhancedIntradayNifty50Trader.__init__\<close>.\<close>

definition init_trader :: trader where
  "init_trader =
     \<lparr> account_balance = 100000, current_positions = [], trade_history = [],
       max_intraday_risk = 0.03, max_intraday_positions = 5,
       intraday_stop_loss_percentage = 0.15, intraday_target_percentage = 0.30,
       max_holding_hours = 6, max_spread_positions = 2, max_ce_positions = 3,
       max_pe_positions = 3, spread_risk_multiplier = 1.5, intraday_positions = [],
       intraday_trades = [], daily_pnl = 0, ce_positions = 0, pe_positions = 0,
       spread_positions = 0 \<rparr>"

text \<open>
  What a call reads from outside the trader: the clock (\<^verbatim>\<open>datetime.now()\<close>, taken as one
  instant per call), the quote of the market-data source for the contract of the call
  (ask and bid price, or None when \<^verbatim>\<open>get_option_quote\<close> returns None), and the trade id
  that \<^verbatim>\<open>place_option_order\<close> builds from the clock and a random number.
\<close>

record env =
  now :: int
  quote :: "(real \<times> real) option"
  new_trade_id :: string

section \<open>Admission control\<close>

definition microseconds_per_day :: int where
  "microseconds_per_day = 86400000000"

definition market_open_time :: int where
  "market_open_time = (9 * 3600 + 15 * 60) * 1000000"

definition market_close_time :: int where
  "market_close_time = (15 * 3600 + 30 * 60) * 1000000"

definition is_market_open :: "int \<Rightarrow> bool" where
  "is_market_open current =
     (let current_time = current mod microseconds_per_day
      in market_open_time \<le> current_time \<and> current_time \<le> market_close_time)"

text \<open>\<^verbatim>\<open>str\<close> of a Python int, for the f-strings of the admission messages.\<close>

definition digit_char :: "nat \<Rightarrow> char" where
  "digit_char d = ''0123456789'' ! d"

function str_nat :: "nat \<Rightarrow> string" where
  "str_nat n = (if n < 10 then [digit_char n] else str_nat (n div 10) @ [digit_char (n mod 10)])"
  by pat_completeness auto
termination
  by (relation "measure id") auto

declare str_nat.simps [simp del]

definition str_int :: "int \<Rightarrow> string" where
  "str_int i = (if i < 0 then CHR ''-'' # str_nat (nat (- i)) else str_nat (nat i))"

definition can_place_ce_pe_trade :: "int \<Rightarrow> trader \<Rightarrow> OptionType \<Rightarrow> bool \<Rightarrow> bool \<times> string" where
  "can_place_ce_pe_trade current s otype is_spread =
     (if \<not> is_market_open current then (False, ''Market is closed'')
      else if int (length (intraday_positions s)) \<ge> max_intraday_positions s then
        (False, ''Maximum intraday positions ('' @ str_int (max_intraday_positions s) @ '') reached'')
      else if otype = CALL \<and> ce_positions s \<ge> max_ce_positions s then
        (False, ''Maximum CE positions ('' @ str_int (max_ce_positions s) @ '') reached'')
      else if otype = PUT \<and> pe_positions s \<ge> max_pe_positions s then
        (False, ''Maximum PE positions ('' @ str_int (max_pe_positions s) @ '') reached'')
      else if is_spread \<and> spread_positions s \<ge> max_spread_positions s then
        (False, ''Maximum spread positions ('' @ str_int (max_spread_positions s) @ '') reached'')
      else if \<bar>daily_pnl s\<bar> > account_balance s * 0.05 then
        (False, ''Daily loss limit reached'')
      else (True, ''OK''))"

definition can_place_intraday_trade :: "int \<Rightarrow> trader \<Rightarrow> bool \<times> string" where
  "can_place_intraday_trade current s =
     (if \<not> is_market_open current then (False, ''Market is closed'')
      else if int (length (intraday_positions s)) \<ge> max_intraday_positions s then
        (False, ''Maximum intraday positions ('' @ str_int (max_intraday_positions s) @ '') reached'')
      else if \<bar>daily_pnl s\<bar> > account_balance s * 0.05 then
        (False, ''Daily loss limit reached'')
      else (True, ''OK''))"

section \<open>Order execution (base trader)\<close>

definition total_value :: "OptionTrade \<Rightarrow> real" where
  "total_value t = real_of_int (t_quantity t) * t_price t * real_of_int (lot_size (t_contract t))"

text \<open>\<^verbatim>\<open>_execute_trade\<close>: None is the result False, Some the state after a result True.\<close>

definition execute_trade :: "trader \<Rightarrow> OptionTrade \<Rightarrow> trader option" where
  "execute_trade s t =
     (if t_action t = BUY then
        (let cost = total_value t
         in if cost \<le> account_balance s
            then Some (s\<lparr>account_balance := account_balance s - cost\<rparr>) else None)
      else
        (case map_of (current_positions s) (contract_id (t_contract t)) of
           None \<Rightarrow> None
         | Some h \<Rightarrow>
             if h_quantity h \<ge> t_quantity t
             then Some (s\<lparr>account_balance := account_balance s + total_value t\<rparr>)
             else None))"

text \<open>
  \<^verbatim>\<open>_update_positions\<close>. The average price of an existing holding is a division by the
  new total quantity, which raises ZeroDivisionError when that total is zero, after the
  quantity has been stored: the result False with the state reached.
\<close>

definition update_positions :: "trader \<Rightarrow> OptionTrade \<Rightarrow> bool \<times> trader" where
  "update_positions s t =
     (let position_key = contract_id (t_contract t) in
      if t_action t = BUY then
        (case map_of (current_positions s) position_key of
           Some h \<Rightarrow>
             (let total_quantity = h_quantity h + t_quantity t;
                  total_cost = real_of_int (h_quantity h) * h_average_price h
                               + real_of_int (t_quantity t) * t_price t;
                  h1 = h\<lparr>h_quantity := total_quantity\<rparr>
              in if total_quantity = 0
                 then (False, s\<lparr>current_positions :=
                                  AList.update position_key h1 (current_positions s)\<rparr>)
                 else (True, s\<lparr>current_positions :=
                                  AList.update position_key
                                    (h1\<lparr>h_average_price := total_cost / real_of_int total_quantity\<rparr>)
                                    (current_positions s)\<rparr>))
         | None \<Rightarrow>
             (True, s\<lparr>current_positions :=
                         AList.update position_key
                           \<lparr>h_quantity = t_quantity t, h_average_price = t_price t\<rparr>
                           (current_positions s)\<rparr>))
      else
        (case map_of (current_positions s) position_key of
           Some h \<Rightarrow>
             (let h1 = h\<lparr>h_quantity := h_quantity h - t_quantity t\<rparr>
              in if h_quantity h1 \<le> 0
                 then (True, s\<lparr>current_positions := AList.delete position_key (current_positions s)\<rparr>)
                 else (True, s\<lparr>current_positions :=
                                  AList.update position_key h1 (current_positions s)\<rparr>))
         | None \<Rightarrow> (True, s)))"

text \<open>
  \<^verbatim>\<open>place_option_order\<close> for a market order, the only kind the intraday traders place.
  Every \<^verbatim>\<open>raise\<close> is caught by the function's own \<^verbatim>\<open>except\<close> and gives the result None.
\<close>

definition place_option_order ::
  "env \<Rightarrow> trader \<Rightarrow> OptionContract \<Rightarrow> action \<Rightarrow> int \<Rightarrow> OptionTrade option \<times> trader" where
  "place_option_order e s contract act qty =
     (if qty \<le> 0 then (None, s)
      else if act = BUY \<and>
              (case quote e of
                 Some (ask, bid) \<Rightarrow>
                   real_of_int qty * ask * real_of_int (lot_size contract) > account_balance s
               | None \<Rightarrow> False)
      then (None, s)
      else
        (case quote e of
           None \<Rightarrow> (None, s)
         | Some (ask, bid) \<Rightarrow>
             (let trade = \<lparr> t_contract = contract, t_action = act, t_quantity = qty,
                            t_price = (if act = BUY then ask else bid),
                            t_timestamp = now e, t_trade_id = new_trade_id e,
                            t_status = ''PENDING'' \<rparr>
              in case execute_trade s trade of
                   None \<Rightarrow> (None, s)
                 | Some s1 \<Rightarrow>
                     (let trade1 = trade\<lparr>t_status := ''EXECUTED''\<rparr>;
                          s2 = s1\<lparr>trade_history := trade_history s1 @ [trade1]\<rparr>
                      in case update_positions s2 trade1 of
                           (True, s3) \<Rightarrow> (Some trade1, s3)
                         | (False, s3) \<Rightarrow> (None, s3)))))"

text \<open>
  \<^verbatim>\<open>place_option_order_with_setup\<close> of the base trader: the ordering of stop, entry and
  target is validated first (a ValueError, caught, gives None); then the quantity is
  sized when none is given, and the order is placed. \<open>max_risk_per_trade\<close> is 0.02.
  The trade and the setup that the source stores in \<^verbatim>\<open>active_trades\<close> are returned
  together. The base \<^verbatim>\<open>TradeSetup\<close> has only the prices, the quantity and the derived
  fields; the remaining fields of the record get values that nothing reads.
\<close>

definition place_option_order_with_setup ::
  "env \<Rightarrow> trader \<Rightarrow> OptionContract \<Rightarrow> action \<Rightarrow> real \<Rightarrow> real \<Rightarrow> real \<Rightarrow> int option \<Rightarrow> real option
     \<Rightarrow> (OptionTrade \<times> TradeSetup) option \<times> trader" where
  "place_option_order_with_setup e s contract act entry stop target qty_arg risk_arg =
     (if act = BUY \<and> stop \<ge> entry then (None, s)
      else if act = BUY \<and> target \<le> entry then (None, s)
      else if act \<noteq> BUY \<and> stop \<le> entry then (None, s)
      else if act \<noteq> BUY \<and> target \<ge> entry then (None, s)
      else
        (let qty = (case qty_arg of
                      Some q \<Rightarrow> q
                    | None \<Rightarrow>
                        calculate_position_size (account_balance s) entry stop
                          (case risk_arg of
                             Some r \<Rightarrow> r
                           | None \<Rightarrow> account_balance s * 0.02));
             trade_setup = make_setup entry stop target qty 0 0 (Some 0) stop False 0
                             (c_option_type contract) (c_strike_price contract) False
         in case place_option_order e s contract act qty of
              (None, s1) \<Rightarrow> (None, s1)
            | (Some trade, s1) \<Rightarrow> (Some (trade, trade_setup), s1)))"

section \<open>Placing CE/PE trades\<close>

text \<open>
  \<^verbatim>\<open>timedelta(hours=h)\<close> raises OverflowError when the number of whole days is beyond
  999999999 in magnitude, and adding a \<^verbatim>\<open>timedelta\<close> to a \<^verbatim>\<open>datetime\<close> raises OverflowError
  when the result leaves the years 1 to 9999 (3652059 days); None stands for the error.
\<close>

definition timedelta_hours :: "int \<Rightarrow> int option" where
  "timedelta_hours h =
     (if - 999999999 \<le> h div 24 \<and> h div 24 \<le> 999999999 then Some (h * 3600000000) else None)"

definition datetime_add :: "int \<Rightarrow> int \<Rightarrow> int option" where
  "datetime_add t d =
     (if 0 \<le> t + d \<and> t + d < 3652059 * microseconds_per_day then Some (t + d) else None)"

text \<open>
  \<^verbatim>\<open>place_ce_pe_intraday_trade\<close>. The setup is built before the order is placed; an
  OverflowError of its holding time or exit time is caught by the function's
  \<^verbatim>\<open>except Exception\<close> and gives None with nothing stored.
\<close>

definition place_ce_pe_intraday_trade ::
  "env \<Rightarrow> trader \<Rightarrow> OptionContract \<Rightarrow> action \<Rightarrow> real \<Rightarrow> real option \<Rightarrow> real option
     \<Rightarrow> int option \<Rightarrow> real option \<Rightarrow> int option \<Rightarrow> bool \<Rightarrow> position option \<times> trader" where
  "place_ce_pe_intraday_trade e s contract act entry slp_arg tp_arg qty_arg risk_arg mhh_arg is_spread =
     (if \<not> fst (can_place_ce_pe_trade (now e) s (c_option_type contract) is_spread) then (None, s)
      else
        (let slp = (case slp_arg of None \<Rightarrow> intraday_stop_loss_percentage s | Some x \<Rightarrow> x);
             tp = (case tp_arg of None \<Rightarrow> intraday_target_percentage s | Some x \<Rightarrow> x);
             mhh = (case mhh_arg of None \<Rightarrow> max_holding_hours s | Some x \<Rightarrow> x);
             stop = (if act = BUY
                     then (if c_option_type contract = CALL then entry * (1 - slp)
                           else entry * (1 - slp))
                     else (if c_option_type contract = CALL then entry * (1 + slp)
                           else entry * (1 + slp)));
             target = (if act = BUY
                       then (if c_option_type contract = CALL then entry * (1 + tp)
                             else entry * (1 + tp))
                       else (if c_option_type contract = CALL then entry * (1 - tp)
                             else entry * (1 - tp)));
             qty = (case qty_arg of
                      Some q \<Rightarrow> q
                    | None \<Rightarrow>
                        calculate_position_size (account_balance s) entry stop
                          (case risk_arg of
                             Some r \<Rightarrow> r
                           | None \<Rightarrow>
                               (let r = account_balance s * max_intraday_risk s
                                in if is_spread then r * spread_risk_multiplier s else r)))
         in case timedelta_hours mhh of
              None \<Rightarrow> (None, s)
            | Some hold \<Rightarrow>
                (case datetime_add (now e) hold of
                   None \<Rightarrow> (None, s)
                 | Some xtime \<Rightarrow>
                     (let trade_setup = make_setup entry stop target qty (now e) hold (Some xtime)
                                          stop True 0.05 (c_option_type contract)
                                          (c_strike_price contract) is_spread
                      in case place_option_order e s contract act qty of
                           (None, s1) \<Rightarrow> (None, s1)
                         | (Some trade, s1) \<Rightarrow>
                             (let enhanced_trade =
                                    \<lparr> p_trade_id = t_trade_id trade, p_contract = contract,
                                      p_action = act, p_quantity = qty, p_entry_price = entry,
                                      p_stop_loss = stop, p_target_price = target,
                                      p_entry_time = now e, p_setup = trade_setup,
                                      p_is_spread = is_spread \<rparr>;
                                  s2 = s1\<lparr>intraday_positions :=
                                            AList.update (t_trade_id trade) enhanced_trade
                                              (intraday_positions s1)\<rparr>;
                                  s3 = (if c_option_type contract = CALL
                                        then s2\<lparr>ce_positions := ce_positions s2 + 1\<rparr>
                                        else s2\<lparr>pe_positions := pe_positions s2 + 1\<rparr>);
                                  s4 = (if is_spread
                                        then s3\<lparr>spread_positions := spread_positions s3 + 1\<rparr>
                                        else s3)
                              in (Some enhanced_trade, s4))))))"

text \<open>The dict returned by \<^verbatim>\<open>place_straddle_trade\<close> and \<^verbatim>\<open>place_strangle_trade\<close>.\<close>

record composite_trade =
  ce_strike :: real
  pe_strike :: real
  ce_trade :: position
  pe_trade :: position
  total_risk :: real
  total_reward :: real

definition place_strangle_trade ::
  "env \<Rightarrow> env \<Rightarrow> trader \<Rightarrow> real \<Rightarrow> real \<Rightarrow> int \<Rightarrow> real \<Rightarrow> real \<Rightarrow> real \<Rightarrow> real \<Rightarrow> int
     \<Rightarrow> real option \<Rightarrow> composite_trade option \<times> trader" where
  "place_strangle_trade e_ce e_pe s strike_ce strike_pe expiry entry_price_ce entry_price_pe
       slp tp qty risk_arg =
     (let ce_contract = \<lparr> c_strike_price = strike_ce, c_option_type = CALL,
                          expiry_date = expiry, lot_size = 50, underlying = ''NIFTY50'' \<rparr>;
          pe_contract = \<lparr> c_strike_price = strike_pe, c_option_type = PUT,
                          expiry_date = expiry, lot_size = 50, underlying = ''NIFTY50'' \<rparr>;
          (ce_res, s1) = place_ce_pe_intraday_trade e_ce s ce_contract BUY entry_price_ce
                           (Some slp) (Some tp) (Some qty) risk_arg None True;
          (pe_res, s2) = place_ce_pe_intraday_trade e_pe s1 pe_contract BUY entry_price_pe
                           (Some slp) (Some tp) (Some qty) risk_arg None True
      in case ce_res of
           None \<Rightarrow> (None, s2)
         | Some ce \<Rightarrow>
             (case pe_res of
                None \<Rightarrow> (None, s2)
              | Some pe \<Rightarrow>
                  (Some \<lparr> ce_strike = strike_ce, pe_strike = strike_pe, ce_trade = ce,
                          pe_trade = pe,
                          total_risk = max_loss (p_setup ce) + max_loss (p_setup pe),
                          total_reward = max_profit (p_setup ce) + max_profit (p_setup pe) \<rparr>,
                   s2)))"

text \<open>
  \<^verbatim>\<open>place_straddle_trade\<close> is the same code with one strike for both contracts.
\<close>

definition place_straddle_trade ::
  "env \<Rightarrow> env \<Rightarrow> trader \<Rightarrow> real \<Rightarrow> int \<Rightarrow> real \<Rightarrow> real \<Rightarrow> real \<Rightarrow> real \<Rightarrow> int
     \<Rightarrow> real option \<Rightarrow> composite_trade option \<times> trader" where
  "place_straddle_trade e_ce e_pe s strike expiry entry_price_ce entry_price_pe
       slp tp qty risk_arg =
     (let ce_contract = \<lparr> c_strike_price = strike, c_option_type = CALL,
                          expiry_date = expiry, lot_size = 50, underlying = ''NIFTY50'' \<rparr>;
          pe_contract = \<lparr> c_strike_price = strike, c_option_type = PUT,
                          expiry_date = expiry, lot_size = 50, underlying = ''NIFTY50'' \<rparr>;
          (ce_res, s1) = place_ce_pe_intraday_trade e_ce s ce_contract BUY entry_price_ce
                           (Some slp) (Some tp) (Some qty) risk_arg None True;
          (pe_res, s2) = place_ce_pe_intraday_trade e_pe s1 pe_contract BUY entry_price_pe
                           (Some slp) (Some tp) (Some qty) risk_arg None True
      in case ce_res of
           None \<Rightarrow> (None, s2)
         | Some ce \<Rightarrow>
             (case pe_res of
                None \<Rightarrow> (None, s2)
              | Some pe \<Rightarrow>
                  (Some \<lparr> ce_strike = strike, pe_strike = strike, ce_trade = ce,
                          pe_trade = pe,
                          total_risk = max_loss (p_setup ce) + max_loss (p_setup pe),
                          total_reward = max_profit (p_setup ce) + max_profit (p_setup pe) \<rparr>,
                   s2)))"

section \<open>Monitoring and exiting positions\<close>

definition monitor_ce_pe_positions :: "int \<Rightarrow> trader \<Rightarrow> real \<Rightarrow> exit_decision list" where
  "monitor_ce_pe_positions current s current_price =
     monitor_ce_pe_loop (intraday_positions s) current_price current"

definition monitor_intraday_positions :: "int \<Rightarrow> trader \<Rightarrow> real \<Rightarrow> exit_decision list" where
  "monitor_intraday_positions current s current_price =
     monitor_intraday_loop (intraday_positions s) current_price current"

text \<open>The P&L computed by both exit functions; 50 is the lot size.\<close>

definition exit_pnl :: "position \<Rightarrow> real \<Rightarrow> real" where
  "exit_pnl pos exit_price =
     (if p_action pos = BUY
      then (exit_price - p_entry_price pos) * real_of_int (p_quantity pos) * 50
      else (p_entry_price pos - exit_price) * real_of_int (p_quantity pos) * 50)"

definition make_exit_record :: "int \<Rightarrow> string \<Rightarrow> position \<Rightarrow> string \<Rightarrow> real \<Rightarrow> exit_record" where
  "make_exit_record current trade_id pos reason exit_price =
     \<lparr> x_trade_id = trade_id, x_exit_time = current, x_exit_price = exit_price,
       x_exit_reason = reason, x_pnl = exit_pnl pos exit_price,
       x_holding_duration = real_of_int (current - p_entry_time pos) / 1000000 / 3600 \<rparr>"

definition exit_ce_pe_position :: "int \<Rightarrow> trader \<Rightarrow> string \<Rightarrow> string \<Rightarrow> real \<Rightarrow> bool \<times> trader" where
  "exit_ce_pe_position current s trade_id reason exit_price =
     (case map_of (intraday_positions s) trade_id of
        None \<Rightarrow> (False, s)
      | Some pos \<Rightarrow>
          (let contract = p_contract pos;
               pnl = exit_pnl pos exit_price;
               s1 = s\<lparr>daily_pnl := daily_pnl s + pnl\<rparr>;
               s2 = (if c_option_type contract = CALL
                     then s1\<lparr>ce_positions := max 0 (ce_positions s1 - 1)\<rparr>
                     else s1\<lparr>pe_positions := max 0 (pe_positions s1 - 1)\<rparr>);
               s3 = (if p_is_spread pos
                     then s2\<lparr>spread_positions := max 0 (spread_positions s2 - 1)\<rparr>
                     else s2);
               exit_rec = make_exit_record current trade_id pos reason exit_price;
               s4 = s3\<lparr>intraday_positions := AList.delete trade_id (intraday_positions s3)\<rparr>;
               s5 = s4\<lparr>intraday_trades := intraday_trades s4 @ [(pos, exit_rec)]\<rparr>
           in (True, s5)))"

definition exit_intraday_position :: "int \<Rightarrow> trader \<Rightarrow> string \<Rightarrow> string \<Rightarrow> real \<Rightarrow> bool \<times> trader" where
  "exit_intraday_position current s trade_id reason exit_price =
     (case map_of (intraday_positions s) trade_id of
        None \<Rightarrow> (False, s)
      | Some pos \<Rightarrow>
          (let pnl = exit_pnl pos exit_price;
               s1 = s\<lparr>daily_pnl := daily_pnl s + pnl\<rparr>;
               exit_rec = make_exit_record current trade_id pos reason exit_price;
               s2 = s1\<lparr>intraday_positions := AList.delete trade_id (intraday_positions s1)\<rparr>;
               s3 = s2\<lparr>intraday_trades := intraday_trades s2 @ [(pos, exit_rec)]\<rparr>
           in (True, s3)))"

section \<open>Sequences of operations\<close>

text \<open>
  The calls that change the counters of the CE/PE trader, each with its arguments and
  with what it reads from outside; a run applies them one after the other.
\<close>

datatype operation =
    Place env OptionContract action real "real option" "real option" "int option"
      "real option" "int option" bool
  | Exit int string string real
  | Straddle env env real int real real real real int "real option"
  | Strangle env env real real int real real real real int "real option"

fun apply_operation :: "trader \<Rightarrow> operation \<Rightarrow> trader" where
  "apply_operation s (Place e contract act entry slp tp qty risk_arg mhh is_spread) =
     snd (place_ce_pe_intraday_trade e s contract act entry slp tp qty risk_arg mhh is_spread)"
| "apply_operation s (Exit current trade_id reason exit_price) =
     snd (exit_ce_pe_position current s trade_id reason exit_price)"
| "apply_operation s (Straddle e_ce e_pe strike expiry entry_ce entry_pe slp tp qty risk_arg) =
     snd (place_straddle_trade e_ce e_pe s strike expiry entry_ce entry_pe slp tp qty risk_arg)"
| "apply_operation s (Strangle e_ce e_pe strike_ce strike_pe expiry entry_ce entry_pe slp tp qty risk_arg) =
     snd (place_strangle_trade e_ce e_pe s strike_ce strike_pe expiry entry_ce entry_pe slp tp
            qty risk_arg)"

definition run :: "trader \<Rightarrow> operation list \<Rightarrow> trader" where
  "run s ops = foldl apply_operation s ops"

section \<open>Example values\<close>

definition example_contract :: OptionContract where
  "example_contract =
     \<lparr> c_strike_price = 25000, c_option_type = CALL, expiry_date = 0, lot_size = 50,
       underlying = ''NIFTY50'' \<rparr>"

text \<open>
  A position as \<^verbatim>\<open>place_ce_pe_intraday_trade\<close> stores it, opened at time 0 with the
  default holding time of six hours and the trailing stop of 5 percent.
\<close>

definition example_position :: "action \<Rightarrow> real \<Rightarrow> real \<Rightarrow> real \<Rightarrow> int \<Rightarrow> position" where
  "example_position act entry stop target qty =
     \<lparr> p_trade_id = ''T1'', p_contract = example_contract, p_action = act,
       p_quantity = qty, p_entry_price = entry, p_stop_loss = stop,
       p_target_price = target, p_entry_time = 0,
       p_setup = make_setup entry stop target qty 0 21600000000 (Some 21600000000) stop True
                   0.05 CALL 25000 False,
       p_is_spread = False \<rparr>"

text \<open>
  A long position whose stop (120) lies above its target (110): at the price 115 the
  stop-loss and the target condition both hold.
\<close>

definition crossed_position :: position where
  "crossed_position = example_position BUY 100 120 110 1"

definition crossed_trader :: trader where
  "crossed_trader = init_trader\<lparr>intraday_positions := [(''T1'', crossed_position)], ce_positions := 1\<rparr>"

text \<open>A long position of one lot (entry 100, stop 85, target 130) with a given id and type.\<close>

definition example_leg :: "string \<Rightarrow> OptionType \<Rightarrow> position" where
  "example_leg tid otype =
     \<lparr> p_trade_id = tid,
       p_contract = \<lparr> c_strike_price = 25000, c_option_type = otype, expiry_date = 0,
                      lot_size = 50, underlying = ''NIFTY50'' \<rparr>,
       p_action = BUY, p_quantity = 1, p_entry_price = 100, p_stop_loss = 85,
       p_target_price = 130, p_entry_time = 0,
       p_setup = make_setup 100 85 130 1 0 21600000000 (Some 21600000000) 85 True 0.05
                   otype 25000 False,
       p_is_spread = False \<rparr>"

text \<open>Three CALL positions open, daily loss of 10000 on a balance of 100000.\<close>

definition three_calls_trader :: trader where
  "three_calls_trader =
     init_trader\<lparr>intraday_positions :=
                   [(''T1'', example_leg ''T1'' CALL), (''T2'', example_leg ''T2'' CALL),
                    (''T3'', example_leg ''T3'' CALL)],
                 ce_positions := 3, daily_pnl := - 10000\<rparr>"

text \<open>Two PUT positions more: the total cap of five is reached as well.\<close>

definition five_positions_trader :: trader where
  "five_positions_trader =
     three_calls_trader\<lparr>intraday_positions :=
                   intraday_positions three_calls_trader @
                   [(''T4'', example_leg ''T4'' PUT), (''T5'', example_leg ''T5'' PUT)],
                 pe_positions := 2\<rparr>"

text \<open>Ten o'clock in the morning of day 0, in microseconds.\<close>

definition ten_o_clock :: int where
  "ten_o_clock = 36000000000"

text \<open>
  What a call reads at ten o'clock: a quote with ask 100 and bid 95, and the trade id
  generated for the order.
\<close>

definition example_env :: "string \<Rightarrow> env" where
  "example_env tid = \<lparr> now = ten_o_clock, quote = Some (100, 95), new_trade_id = tid \<rparr>"

text \<open>
  The scenario of a second straddle after one leg of a first one was closed: a straddle
  is placed from the initial state (ids T1 and T2), and its CE leg T1 is exited.
\<close>

definition after_first_straddle :: trader where
  "after_first_straddle =
     snd (place_straddle_trade (example_env ''T1'') (example_env ''T2'') init_trader
            25000 0 100 100 0.15 0.30 1 None)"

definition after_exit :: trader where
  "after_exit =
     snd (exit_ce_pe_position ten_o_clock after_first_straddle ''T1'' ''TARGET_HIT'' 130)"

text \<open>
  A run in which exits do not match entries one to one: two orders get the same trade
  id (the second overwrites the dict entry of the first), the id is exited twice, and
  an id that was never opened is exited.
\<close>

definition unmatched_exit_run :: "operation list" where
  "unmatched_exit_run =
     [Place (example_env ''T1'') example_contract BUY 100 None None (Some 1) None None False,
      Place (example_env ''T1'') example_contract BUY 100 None None (Some 1) None None False,
      Exit ten_o_clock ''T1'' ''TARGET_HIT'' 130,
      Exit ten_o_clock ''T1'' ''TARGET_HIT'' 130,
      Exit ten_o_clock ''T9'' ''MANUAL'' 90]"

text \<open>
  A position that is open while the CE counter stands at zero.
\<close>

definition uncounted_trader :: trader where
  "uncounted_trader = init_trader\<lparr>intraday_positions := [(''T1'', example_leg ''T1'' CALL)]\<rparr>"

text \<open>
  The contracts of a straddle at the strike 25000, and the state after the CE leg (id T3)
  of a second straddle was placed on \<open>after_exit\<close>.
\<close>

definition ce_25000 :: OptionContract where
  "ce_25000 = \<lparr> c_strike_price = 25000, c_option_type = CALL, expiry_date = 0,
                   lot_size = 50, underlying = ''NIFTY50'' \<rparr>"

definition pe_25000 :: OptionContract where
  "pe_25000 = \<lparr> c_strike_price = 25000, c_option_type = PUT, expiry_date = 0,
                   lot_size = 50, underlying = ''NIFTY50'' \<rparr>"

definition after_orphan_leg :: trader where
  "after_orphan_leg =
     snd (place_ce_pe_intraday_trade (example_env ''T3'') after_exit ce_25000 BUY 100
            (Some 0.15) (Some 0.30) (Some 1) None None True)"

text \<open>
  The example position with a trailing fraction of 2^-60, and the smallest positive
  double.
\<close>

definition tiny_fraction_position :: position where
  "tiny_fraction_position =
     (example_position BUY 100 85 130 1)
       \<lparr>p_setup := (p_setup (example_position BUY 100 85 130 1))
                     \<lparr>trailing_stop_percentage := pow2 (- 60)\<rparr>\<rparr>"

definition min_subnormal :: real where
  "min_subnormal = pow2 (- 1074)"

section \<open>Specification-side definitions\<close>

text \<open>
  The precedence as the specification words it, for comparison with the monitor loops:
  the reasons reported for one position on one tick, given which of the four conditions
  (stop-loss, target, time-based, trailing-stop) hold, checked in this order.
\<close>

definition spec_first_match :: "bool \<Rightarrow> bool \<Rightarrow> bool \<Rightarrow> bool \<Rightarrow> string list" where
  "spec_first_match sl tg tm tr =
     (if sl then [''STOP_LOSS''] else if tg then [''TARGET_HIT'']
      else if tm then [''TIME_BASED''] else if tr then [''TRAILING_STOP''] else [])"

section \<open>Auxiliary predicates\<close>

text \<open>
  Two trader states agree on everything the intraday layer owns: open positions,
  counters, daily P&L and history. Order execution in the base trader changes none of it.
\<close>

definition same_ledger :: "trader \<Rightarrow> trader \<Rightarrow> bool" where
  "same_ledger s s1 \<longleftrightarrow>
     intraday_positions s1 = intraday_positions s \<and> ce_positions s1 = ce_positions s
     \<and> pe_positions s1 = pe_positions s \<and> spread_positions s1 = spread_positions s
     \<and> daily_pnl s1 = daily_pnl s \<and> intraday_trades s1 = intraday_trades s"

text \<open>The unit in the last place of the binade of a magnitude.\<close>

definition ulp :: "real \<Rightarrow> real" where
  "ulp a = pow2 (double_exponent a - 52)"

text \<open>The lots that a risk budget buys, as a function of the risk per lot.\<close>

definition lots_for :: "pyfloat \<Rightarrow> pyfloat \<Rightarrow> int option" where
  "lots_for budget rpl = (case fdiv budget rpl of None \<Rightarrow> None | Some q \<Rightarrow> int_of_float q)"

section \<open>Basic facts\<close>

subsection \<open>Rounding to doubles\<close>

lemma pow2_pos [simp]: "0 < pow2 e"
  by (simp add: pow2_def)

lemma pow2_nonneg [simp]: "0 \<le> pow2 e"
  by (simp add: pow2_def)

lemma pow2_0 [simp]: "pow2 0 = 1"
  by (simp add: pow2_def)

lemma pow2_1 [simp]: "pow2 1 = 2"
  by (simp add: pow2_def)

lemma pow2_add: "pow2 (d + e) = pow2 d * pow2 e"
  by (simp add: pow2_def power_int_add)

lemma two_powi_Suc: "pow2 (e + 1) = 2 * pow2 e"
  by (simp add: pow2_def power_int_add_1')

lemma two_powi_pred: "pow2 (e - 1) = pow2 e / 2"
  using two_powi_Suc [of "e - 1"] by simp

lemma two_powi_mono: "e \<le> e' \<Longrightarrow> pow2 e \<le> pow2 e'"
  unfolding pow2_def by (rule power_int_increasing) simp_all

lemma two_powi_less_exp:
  assumes "pow2 e \<le> a" and "a < pow2 e'"
  shows "e < e'"
proof (rule ccontr)
  assume "\<not> e < e'"
  then have "pow2 e' \<le> pow2 e" by (intro two_powi_mono) simp
  with assms show False by linarith
qed

lemma binade_bounds:
  "pow2 (- int n) \<le> a \<Longrightarrow> a < pow2 (int n + 1)
     \<Longrightarrow> pow2 (binade n a) \<le> a \<and> a < pow2 (binade n a + 1)"
proof (induction n arbitrary: a)
  case 0
  then show ?case by simp
next
  case (Suc n)
  have lo: "pow2 (- int n) = 2 * pow2 (- int (Suc n))"
    using two_powi_Suc [of "- int (Suc n)"] by simp
  have hi: "pow2 (int (Suc n) + 1) = 2 * pow2 (int n + 1)"
    using two_powi_Suc [of "int n + 1"] by (simp add: add.commute)
  have one_lo: "pow2 (- int n) \<le> 1"
    using two_powi_mono [of "- int n" 0] by simp
  have two_hi: "(2::real) \<le> pow2 (int n + 1)"
    using two_powi_mono [of 1 "int n + 1"] by simp
  show ?case
  proof (cases "2 \<le> a")
    case True
    have "pow2 (- int n) \<le> a / 2" using True one_lo by linarith
    moreover have "a / 2 < pow2 (int n + 1)" using Suc.prems(2) hi by linarith
    ultimately have IH: "pow2 (binade n (a / 2)) \<le> a / 2 \<and> a / 2 < pow2 (binade n (a / 2) + 1)"
      by (rule Suc.IH)
    have e: "binade (Suc n) a = binade n (a / 2) + 1" using True by simp
    have "pow2 (binade n (a / 2) + 1) \<le> a"
      using IH two_powi_Suc [of "binade n (a / 2)"] by linarith
    moreover have "a < pow2 (binade n (a / 2) + 1 + 1)"
      using IH two_powi_Suc [of "binade n (a / 2) + 1"] by linarith
    ultimately show ?thesis unfolding e by simp
  next
    case False
    show ?thesis
    proof (cases "a < 1")
      case True
      have "pow2 (- int n) \<le> a * 2" using Suc.prems(1) lo by linarith
      moreover have "a * 2 < pow2 (int n + 1)" using True two_hi by linarith
      ultimately have IH: "pow2 (binade n (a * 2)) \<le> a * 2 \<and> a * 2 < pow2 (binade n (a * 2) + 1)"
        by (rule Suc.IH)
      have e: "binade (Suc n) a = binade n (a * 2) - 1" using True False by simp
      have "pow2 (binade n (a * 2) - 1) \<le> a"
        using IH two_powi_pred [of "binade n (a * 2)"] by linarith
      moreover have "a < pow2 (binade n (a * 2) - 1 + 1)"
      proof -
        have "a * 2 < 2 * pow2 (binade n (a * 2))"
          using IH two_powi_Suc [of "binade n (a * 2)"] by linarith
        then show ?thesis by simp
      qed
      ultimately show ?thesis unfolding e by simp
    next
      case F2: False
      with False show ?thesis by simp
    qed
  qed
qed

lemma double_exponent_subnormal: "a < pow2 (- 1022) \<Longrightarrow> double_exponent a = - 1022"
  by (simp add: double_exponent_def)

lemma double_exponent_huge: "pow2 1024 \<le> a \<Longrightarrow> double_exponent a = 1023"
proof -
  assume h: "pow2 1024 \<le> a"
  have "pow2 (- 1022) \<le> pow2 1024" by (intro two_powi_mono) simp
  with h have "\<not> a < pow2 (- 1022)" by linarith
  with h show ?thesis by (simp add: double_exponent_def)
qed

lemma double_exponent_normal:
  assumes "pow2 (- 1022) \<le> a" and "a < pow2 1024"
  shows "pow2 (double_exponent a) \<le> a \<and> a < pow2 (double_exponent a + 1)
       \<and> - 1022 \<le> double_exponent a \<and> double_exponent a \<le> 1023"
proof -
  have de: "double_exponent a = binade 1024 a"
    using assms by (simp add: double_exponent_def)
  have "pow2 (- int 1024) \<le> pow2 (- 1022)" by (intro two_powi_mono) simp
  then have lo: "pow2 (- int 1024) \<le> a" using assms(1) by linarith
  have "pow2 1024 \<le> pow2 (int 1024 + 1)" by (intro two_powi_mono) simp
  then have hi: "a < pow2 (int 1024 + 1)" using assms(2) by linarith
  have b: "pow2 (binade 1024 a) \<le> a \<and> a < pow2 (binade 1024 a + 1)"
    using binade_bounds [OF lo hi] .
  have "- 1022 < binade 1024 a + 1"
    using two_powi_less_exp [of "- 1022" a "binade 1024 a + 1"] assms(1) b by simp
  moreover have "binade 1024 a < 1024"
    using two_powi_less_exp [of "binade 1024 a" a 1024] assms(2) b by simp
  ultimately show ?thesis using b de by simp
qed

lemma double_exponent_eqI:
  assumes "pow2 e \<le> a" and "a < pow2 (e + 1)" and "- 1022 \<le> e" and "e \<le> 1023"
  shows "double_exponent a = e"
proof -
  have "pow2 (- 1022) \<le> pow2 e" using assms(3) by (intro two_powi_mono)
  then have lo: "pow2 (- 1022) \<le> a" using assms(1) by linarith
  have "pow2 (e + 1) \<le> pow2 1024" using assms(4) by (intro two_powi_mono) simp
  then have hi: "a < pow2 1024" using assms(2) by linarith
  note n = double_exponent_normal [OF lo hi]
  have "e < double_exponent a + 1"
    using two_powi_less_exp [of e a "double_exponent a + 1"] assms(1) n by simp
  moreover have "double_exponent a < e + 1"
    using two_powi_less_exp [of "double_exponent a" a "e + 1"] assms(2) n by simp
  ultimately show ?thesis by simp
qed

lemma double_exponent_range: "- 1022 \<le> double_exponent a \<and> double_exponent a \<le> 1023"
proof (cases "a < pow2 (- 1022)")
  case True
  then show ?thesis by (simp add: double_exponent_subnormal)
next
  case False
  show ?thesis
  proof (cases "a < pow2 1024")
    case True
    with False show ?thesis using double_exponent_normal [of a] by simp
  next
    case F: False
    then show ?thesis by (simp add: double_exponent_huge)
  qed
qed

lemma double_exponent_mono:
  assumes "a \<le> b"
  shows "double_exponent a \<le> double_exponent b"
proof (cases "a < pow2 (- 1022)")
  case True
  then show ?thesis using double_exponent_range [of b] by (simp add: double_exponent_subnormal)
next
  case False
  then have lo_a: "pow2 (- 1022) \<le> a" by simp
  then have lo_b: "pow2 (- 1022) \<le> b" using assms by linarith
  show ?thesis
  proof (cases "b < pow2 1024")
    case True
    then have hi_a: "a < pow2 1024" using assms by linarith
    note na = double_exponent_normal [OF lo_a hi_a]
    note nb = double_exponent_normal [OF lo_b True]
    have "double_exponent a < double_exponent b + 1"
      using two_powi_less_exp [of "double_exponent a" a "double_exponent b + 1"] na nb assms
      by linarith
    then show ?thesis by simp
  next
    case F: False
    then show ?thesis using double_exponent_range [of a] by (simp add: double_exponent_huge)
  qed
qed

lemma round_half_even_disj:
  "(q - of_int \<lfloor>q\<rfloor> \<le> 1 / 2 \<and> round_half_even q = \<lfloor>q\<rfloor>)
   \<or> (1 / 2 \<le> q - of_int \<lfloor>q\<rfloor> \<and> round_half_even q = \<lfloor>q\<rfloor> + 1)"
  unfolding round_half_even_def Let_def
  by (cases "q - of_int \<lfloor>q\<rfloor> < 1 / 2"; cases "1 / 2 < q - of_int \<lfloor>q\<rfloor>";
      cases "even \<lfloor>q\<rfloor>") simp_all

lemma round_half_even_cases:
  obtains (down) "q - of_int \<lfloor>q\<rfloor> \<le> 1 / 2" "round_half_even q = \<lfloor>q\<rfloor>"
  | (up) "1 / 2 \<le> q - of_int \<lfloor>q\<rfloor>" "round_half_even q = \<lfloor>q\<rfloor> + 1"
  using round_half_even_disj [of q] by blast

lemma round_half_even_error: "\<bar>of_int (round_half_even q) - q\<bar> \<le> 1 / 2"
proof (cases q rule: round_half_even_cases)
  case down
  have "of_int \<lfloor>q\<rfloor> \<le> q" by simp
  with down show ?thesis by simp
next
  case up
  have "q < of_int \<lfloor>q\<rfloor> + 1" by linarith
  with up show ?thesis by simp
qed

lemma round_half_even_of_int [simp]: "round_half_even (of_int m) = m"
  by (simp add: round_half_even_def)

lemma round_half_even_range: "\<lfloor>q\<rfloor> \<le> round_half_even q \<and> round_half_even q \<le> \<lfloor>q\<rfloor> + 1"
  by (cases q rule: round_half_even_cases) simp_all

lemma round_half_even_mono:
  assumes "q \<le> q'"
  shows "round_half_even q \<le> round_half_even q'"
proof (cases "\<lfloor>q\<rfloor> = \<lfloor>q'\<rfloor>")
  case False
  with assms have "\<lfloor>q\<rfloor> < \<lfloor>q'\<rfloor>"
    using floor_mono [OF assms] by linarith
  then show ?thesis
    using round_half_even_range [of q] round_half_even_range [of q'] by linarith
next
  case True
  then have d: "q - of_int \<lfloor>q\<rfloor> \<le> q' - of_int \<lfloor>q'\<rfloor>" using assms by simp
  show ?thesis
    using d True unfolding round_half_even_def Let_def
    by (auto split: if_splits)
qed

lemma round_half_even_nonneg: "0 \<le> q \<Longrightarrow> 0 \<le> round_half_even q"
  using round_half_even_mono [of 0 q] round_half_even_of_int [of 0] by simp

lemma round_half_even_eqI:
  assumes "of_int m - 1 / 2 < q" and "q < of_int m + 1 / 2"
  shows "round_half_even q = m"
proof -
  have "\<bar>of_int (round_half_even q) - q\<bar> \<le> 1 / 2" by (rule round_half_even_error)
  with assms have "\<bar>(of_int (round_half_even q) :: real) - of_int m\<bar> < 1" by linarith
  then have "\<bar>round_half_even q - m\<bar> < 1"
    by (metis of_int_diff of_int_abs of_int_less_1_iff)
  then show ?thesis by simp
qed

lemma round_half_even_tie:
  "round_half_even (of_int m + 1 / 2) = (if even m then m else m + 1)"
proof -
  have "\<lfloor>of_int m + (1 / 2 :: real)\<rfloor> = m" by (rule floor_unique) simp_all
  then show ?thesis by (simp add: round_half_even_def Let_def)
qed

lemma ulp_pos [simp]: "0 < ulp a"
  by (simp add: ulp_def)

lemma ulp_nonneg [simp]: "0 \<le> ulp a"
  by (simp add: ulp_def)

lemma ulp_nonzero [simp]: "ulp a \<noteq> 0"
  using ulp_pos [of a] by linarith

lemma round_half_even_zero [simp]: "round_half_even 0 = 0"
  using round_half_even_of_int [of 0] by simp

lemma round_magnitude_ulp: "round_magnitude a = of_int (round_half_even (a / ulp a)) * ulp a"
  by (simp add: round_magnitude_def ulp_def Let_def)

lemma ulp_times: "ulp a * pow2 52 = pow2 (double_exponent a)"
  unfolding ulp_def using pow2_add [of "double_exponent a - 52" 52] by simp

lemma ulp_times_53: "ulp a * pow2 53 = pow2 (double_exponent a + 1)"
  unfolding ulp_def using pow2_add [of "double_exponent a - 52" 53] by (simp add: add.commute)

lemma ulp_half: "ulp a / 2 = pow2 (- 53) * pow2 (double_exponent a)"
proof -
  have "pow2 (- 53) * pow2 (double_exponent a) = pow2 (double_exponent a - 53)"
    using pow2_add [of "- 53" "double_exponent a"] by simp
  also have "\<dots> = pow2 (double_exponent a - 52 - 1)" by simp
  also have "\<dots> = pow2 (double_exponent a - 52) / 2" by (rule two_powi_pred)
  finally show ?thesis by (simp add: ulp_def)
qed

lemma round_magnitude_error: "\<bar>round_magnitude a - a\<bar> \<le> ulp a / 2"
proof -
  have "\<bar>of_int (round_half_even (a / ulp a)) - a / ulp a\<bar> \<le> 1 / 2"
    by (rule round_half_even_error)
  then have "\<bar>of_int (round_half_even (a / ulp a)) - a / ulp a\<bar> * ulp a \<le> 1 / 2 * ulp a"
    by (intro mult_right_mono) simp_all
  moreover have "\<bar>of_int (round_half_even (a / ulp a)) - a / ulp a\<bar> * ulp a
        = \<bar>round_magnitude a - a\<bar>"
  proof -
    have "\<bar>of_int (round_half_even (a / ulp a)) - a / ulp a\<bar> * ulp a
        = \<bar>(of_int (round_half_even (a / ulp a)) - a / ulp a) * ulp a\<bar>"
      by (simp add: abs_mult)
    also have "(of_int (round_half_even (a / ulp a)) - a / ulp a) * ulp a = round_magnitude a - a"
      by (simp add: round_magnitude_ulp algebra_simps)
    finally show ?thesis .
  qed
  ultimately show ?thesis by simp
qed

lemma two_powi_exponent_le:
  assumes "0 \<le> a"
  shows "pow2 (double_exponent a) \<le> max a (pow2 (- 1022))"
proof (cases "a < pow2 (- 1022)")
  case True
  then show ?thesis by (simp add: double_exponent_subnormal)
next
  case False
  show ?thesis
  proof (cases "a < pow2 1024")
    case True
    with False show ?thesis using double_exponent_normal [of a] by simp
  next
    case F: False
    have "pow2 1023 \<le> pow2 1024" by (intro two_powi_mono) simp
    with F show ?thesis by (simp add: double_exponent_huge)
  qed
qed

lemma round_magnitude_relative_error:
  assumes "0 \<le> a"
  shows "\<bar>round_magnitude a - a\<bar> \<le> pow2 (- 53) * max a (pow2 (- 1022))"
proof -
  have "\<bar>round_magnitude a - a\<bar> \<le> pow2 (- 53) * pow2 (double_exponent a)"
    using round_magnitude_error [of a] by (simp add: ulp_half)
  also have "\<dots> \<le> pow2 (- 53) * max a (pow2 (- 1022))"
    by (intro mult_left_mono two_powi_exponent_le assms) simp
  finally show ?thesis .
qed

lemma round_magnitude_nonneg: "0 \<le> a \<Longrightarrow> 0 \<le> round_magnitude a"
  by (simp add: round_magnitude_ulp round_half_even_nonneg)

lemma round_magnitude_zero [simp]: "round_magnitude 0 = 0"
  by (simp add: round_magnitude_ulp)

lemma round_half_even_pow2:
  assumes "0 \<le> e"
  shows "of_int (round_half_even (pow2 e)) = pow2 e"
proof -
  have "pow2 e = of_int (2 ^ nat e)"
    using assms by (simp add: pow2_def power_int_def)
  then show ?thesis by (simp only: round_half_even_of_int)
qed

lemma round_magnitude_upper:
  assumes "a < pow2 (double_exponent a + 1)"
  shows "round_magnitude a \<le> pow2 (double_exponent a + 1)"
proof -
  have "a / ulp a < pow2 53"
    using assms ulp_times_53 [of a] by (simp add: field_simps)
  then have "a / ulp a \<le> pow2 53" by simp
  then have "round_half_even (a / ulp a) \<le> round_half_even (pow2 53)"
    by (rule round_half_even_mono)
  then have "(of_int (round_half_even (a / ulp a)) :: real) \<le> of_int (round_half_even (pow2 53))"
    by (simp only: of_int_le_iff)
  then have "(of_int (round_half_even (a / ulp a)) :: real) \<le> pow2 53"
    by (simp add: round_half_even_pow2)
  then have "of_int (round_half_even (a / ulp a)) * ulp a \<le> pow2 53 * ulp a"
    by (intro mult_right_mono) simp_all
  then show ?thesis
    using ulp_times_53 [of a] by (simp add: round_magnitude_ulp mult.commute)
qed

lemma round_magnitude_lower:
  assumes "pow2 (double_exponent a) \<le> a"
  shows "pow2 (double_exponent a) \<le> round_magnitude a"
proof -
  have "pow2 52 \<le> a / ulp a"
    using assms ulp_times [of a] by (simp add: field_simps)
  then have "round_half_even (pow2 52) \<le> round_half_even (a / ulp a)"
    by (rule round_half_even_mono)
  then have "(of_int (round_half_even (pow2 52)) :: real) \<le> of_int (round_half_even (a / ulp a))"
    by (simp only: of_int_le_iff)
  then have "pow2 52 \<le> of_int (round_half_even (a / ulp a))"
    by (simp add: round_half_even_pow2)
  then have "pow2 52 * ulp a \<le> of_int (round_half_even (a / ulp a)) * ulp a"
    by (intro mult_right_mono) simp_all
  then show ?thesis
    using ulp_times [of a] by (simp add: round_magnitude_ulp mult.commute)
qed

lemma below_next_binade:
  assumes "a < pow2 1024"
  shows "a < pow2 (double_exponent a + 1)"
proof (cases "a < pow2 (- 1022)")
  case True
  have "pow2 (- 1022) \<le> pow2 (- 1022 + 1)" by (intro two_powi_mono) simp
  with True show ?thesis by (simp add: double_exponent_subnormal)
next
  case False
  with assms show ?thesis using double_exponent_normal [of a] by simp
qed

lemma above_binade:
  assumes "pow2 (- 1022) \<le> a"
  shows "pow2 (double_exponent a) \<le> a"
proof (cases "a < pow2 1024")
  case True
  with assms show ?thesis using double_exponent_normal [of a] by simp
next
  case False
  have "pow2 1023 \<le> pow2 1024" by (intro two_powi_mono) simp
  with False show ?thesis by (simp add: double_exponent_huge)
qed

lemma round_magnitude_mono:
  assumes "0 \<le> a" and "a \<le> b"
  shows "round_magnitude a \<le> round_magnitude b"
proof (cases "double_exponent a = double_exponent b")
  case True
  then have u: "ulp a = ulp b" by (simp add: ulp_def)
  have "a / ulp b \<le> b / ulp b" using assms(2) by (simp add: divide_right_mono)
  then have "round_half_even (a / ulp b) \<le> round_half_even (b / ulp b)"
    by (rule round_half_even_mono)
  then have "(of_int (round_half_even (a / ulp b)) :: real) \<le> of_int (round_half_even (b / ulp b))"
    by simp
  then show ?thesis
    unfolding round_magnitude_ulp u by (intro mult_right_mono) simp_all
next
  case False
  with double_exponent_mono [OF assms(2)]
  have lt: "double_exponent a < double_exponent b" by simp
  have a_small: "a < pow2 1024"
  proof (rule ccontr)
    assume "\<not> a < pow2 1024"
    then have "double_exponent a = 1023" by (simp add: double_exponent_huge)
    with lt double_exponent_range [of b] show False by simp
  qed
  have b_normal: "pow2 (- 1022) \<le> b"
  proof (rule ccontr)
    assume "\<not> pow2 (- 1022) \<le> b"
    then have "double_exponent b = - 1022" by (simp add: double_exponent_subnormal)
    with lt double_exponent_range [of a] show False by simp
  qed
  have "round_magnitude a \<le> pow2 (double_exponent a + 1)"
    by (intro round_magnitude_upper below_next_binade a_small)
  also have "\<dots> \<le> pow2 (double_exponent b)"
    using lt by (intro two_powi_mono) simp
  also have "\<dots> \<le> round_magnitude b"
    by (intro round_magnitude_lower above_binade b_normal)
  finally show ?thesis .
qed

lemma round_magnitude_pow2_1024: "round_magnitude (pow2 1024) = pow2 1024"
proof -
  have e: "double_exponent (pow2 1024) = 1023" by (simp add: double_exponent_huge)
  have t: "ulp (pow2 1024) * pow2 53 = pow2 1024"
    using ulp_times_53 [of "pow2 1024"] by (simp add: e)
  then have "pow2 1024 / ulp (pow2 1024) = pow2 53" by (simp add: field_simps)
  then have "round_magnitude (pow2 1024) = of_int (round_half_even (pow2 53)) * ulp (pow2 1024)"
    by (simp add: round_magnitude_ulp)
  also have "\<dots> = pow2 53 * ulp (pow2 1024)" by (simp add: round_half_even_pow2)
  finally show ?thesis using t by (simp add: mult.commute)
qed

lemma round_magnitude_huge:
  assumes "pow2 1024 \<le> a"
  shows "pow2 1024 \<le> round_magnitude a"
proof -
  have "round_magnitude (pow2 1024) \<le> round_magnitude a"
    using assms by (intro round_magnitude_mono) simp_all
  then show ?thesis by (simp add: round_magnitude_pow2_1024)
qed

lemma pow2_1024_not_le_0: "\<not> pow2 1024 \<le> 0"
  using pow2_pos [of 1024] by linarith

lemma round_double_nonneg_cases:
  assumes "0 \<le> x"
  shows "(round_double x = PlusInf \<and> pow2 1024 \<le> round_magnitude x \<and> 0 < x)
       \<or> (round_double x = Finite (round_magnitude x) \<and> round_magnitude x < pow2 1024)"
proof (cases "pow2 1024 \<le> round_magnitude x")
  case True
  have "x \<noteq> 0"
  proof
    assume "x = 0"
    with True show False by (simp add: pow2_1024_not_le_0)
  qed
  with assms have pos: "0 < x" by linarith
  then have ax: "\<bar>x\<bar> = x" by simp
  have "round_double x = PlusInf"
    unfolding round_double_def Let_def ax using True pos by simp
  with True pos show ?thesis by blast
next
  case False
  from assms have ax: "\<bar>x\<bar> = x" by simp
  from assms have nn: "\<not> x < 0" by linarith
  have "round_double x = Finite (round_magnitude x)"
    unfolding round_double_def Let_def ax using False nn by simp
  with False show ?thesis by simp
qed

lemma round_double_zero [simp]: "round_double 0 = Finite 0"
  using round_double_nonneg_cases [of 0] by (simp add: pow2_1024_not_le_0)

lemma round_double_minus: "round_double (- x) = fneg (round_double x)"
proof (cases "x = 0")
  case True
  then show ?thesis by simp
next
  case False
  show ?thesis
  proof (cases "pow2 1024 \<le> round_magnitude \<bar>x\<bar>")
    case True
    then show ?thesis
      using False unfolding round_double_def Let_def by (cases "0 < x") simp_all
  next
    case F: False
    then show ?thesis
      using False unfolding round_double_def Let_def by (cases "0 < x") simp_all
  qed
qed

lemma fabs_round_double: "fabs (round_double x) = round_double \<bar>x\<bar>"
proof (cases "pow2 1024 \<le> round_magnitude \<bar>x\<bar>")
  case True
  have "x \<noteq> 0"
  proof
    assume "x = 0"
    with True show False by (simp add: pow2_1024_not_le_0)
  qed
  then have "0 < \<bar>x\<bar>" by simp
  then show ?thesis
    using True unfolding round_double_def Let_def by simp
next
  case False
  have "0 \<le> round_magnitude \<bar>x\<bar>" by (intro round_magnitude_nonneg) simp
  then show ?thesis
    using False unfolding round_double_def Let_def by (cases "x < 0") simp_all
qed

lemma round_double_mono_nonneg:
  assumes "0 \<le> x" and "x \<le> y"
  shows "fle (round_double x) (round_double y)"
proof -
  have y: "0 \<le> y" using assms by linarith
  have m: "round_magnitude x \<le> round_magnitude y"
    using assms by (rule round_magnitude_mono)
  from round_double_nonneg_cases [OF assms(1)] round_double_nonneg_cases [OF y] m
  show ?thesis by auto
qed

lemma fle_fneg: "fle (fneg a) (fneg b) = fle b a"
  by (cases a; cases b) simp_all

lemma round_double_sign:
  "0 \<le> x \<Longrightarrow> fle (Finite 0) (round_double x)"
  using round_double_mono_nonneg [of 0 x] by simp

lemma fle_trans: "fle a b \<Longrightarrow> fle b c \<Longrightarrow> fle a c"
  by (cases a; cases b; cases c) simp_all

lemma round_double_mono:
  assumes "x \<le> y"
  shows "fle (round_double x) (round_double y)"
proof (cases "0 \<le> x")
  case True
  then show ?thesis using assms by (rule round_double_mono_nonneg)
next
  case False
  show ?thesis
  proof (cases "y \<le> 0")
    case True
    have "fle (round_double (- y)) (round_double (- x))"
      using True assms by (intro round_double_mono_nonneg) simp_all
    then show ?thesis by (simp add: round_double_minus fle_fneg)
  next
    case F: False
    have "fle (round_double (- 0)) (round_double (- x))"
      using False by (intro round_double_mono_nonneg) simp_all
    then have "fle (round_double x) (Finite 0)"
      using fle_fneg [of "Finite 0" "round_double x"] by (simp add: round_double_minus)
    moreover have "fle (Finite 0) (round_double y)"
      using F by (intro round_double_sign) simp
    ultimately show ?thesis by (rule fle_trans)
  qed
qed

text \<open>Representable magnitudes round to themselves.\<close>

lemma round_magnitude_normal_exact:
  assumes e: "- 1022 \<le> e" "e \<le> 1023" and m: "pow2 52 \<le> of_int m" "of_int m < pow2 53"
  shows "round_magnitude (of_int m * pow2 (e - 52)) = of_int m * pow2 (e - 52)"
proof -
  let ?a = "of_int m * pow2 (e - 52)"
  have p52: "pow2 52 * pow2 (e - 52) = pow2 e" using pow2_add [of 52 "e - 52"] by simp
  have p53: "pow2 53 * pow2 (e - 52) = pow2 (e + 1)"
    using pow2_add [of 53 "e - 52"] by (simp add: add.commute)
  have lo: "pow2 e \<le> ?a"
    using mult_right_mono [OF m(1), of "pow2 (e - 52)"] p52 by simp
  have hi: "?a < pow2 (e + 1)"
    using mult_strict_right_mono [OF m(2), of "pow2 (e - 52)"] p53 by simp
  have de: "double_exponent ?a = e"
    using lo hi e by (rule double_exponent_eqI)
  show ?thesis
    by (simp add: round_magnitude_def de Let_def)
qed

lemma round_magnitude_subnormal_exact:
  assumes m: "0 \<le> m" "of_int m < pow2 52"
  shows "round_magnitude (of_int m * pow2 (- 1074)) = of_int m * pow2 (- 1074)"
proof -
  let ?a = "of_int m * pow2 (- 1074)"
  have p52: "pow2 52 * pow2 (- 1074) = pow2 (- 1022)" using pow2_add [of 52 "- 1074"] by simp
  have hi: "?a < pow2 (- 1022)"
    using mult_strict_right_mono [OF m(2), of "pow2 (- 1074)"] p52 by simp
  have de: "double_exponent ?a = - 1022"
    using hi by (rule double_exponent_subnormal)
  show ?thesis
    by (simp add: round_magnitude_def de Let_def)
qed

lemma round_magnitude_min_normal: "round_magnitude (pow2 (- 1022)) = pow2 (- 1022)"
proof -
  have "pow2 52 * pow2 (- 1022 - 52) = pow2 (- 1022)" using pow2_add [of 52 "- 1022 - 52"] by simp
  moreover have "pow2 52 = of_int (2 ^ 52)" by (simp add: pow2_def)
  moreover have "pow2 52 < pow2 53" using two_powi_Suc [of 52] pow2_pos [of 52] by simp
  ultimately show ?thesis
    using round_magnitude_normal_exact [of "- 1022" "2 ^ 52"] by simp
qed

lemma max_double_eq: "max_double = of_int (2 ^ 53 - 1) * pow2 (1023 - 52)"
proof -
  have "pow2 53 * pow2 971 = pow2 1024" using pow2_add [of 53 971] by simp
  moreover have "pow2 53 = of_int (2 ^ 53)" by (simp add: pow2_def)
  ultimately show ?thesis by (simp add: max_double_def algebra_simps)
qed

lemma round_magnitude_max_double: "round_magnitude max_double = max_double"
proof -
  have "pow2 52 \<le> of_int (2 ^ 53 - 1)" by (simp add: pow2_def)
  moreover have "of_int (2 ^ 53 - 1) < pow2 53" by (simp add: pow2_def)
  ultimately show ?thesis
    unfolding max_double_eq by (intro round_magnitude_normal_exact) simp_all
qed

lemma max_double_less: "max_double < pow2 1024"
  by (simp add: max_double_def)

lemma max_double_pos: "0 < max_double"
proof -
  have "pow2 971 < pow2 1024"
    unfolding pow2_def by (rule power_int_strict_increasing) simp_all
  then show ?thesis by (simp add: max_double_def)
qed

lemma round_double_finite:
  assumes "\<bar>x\<bar> \<le> max_double"
  shows "round_double x = Finite (if x < 0 then - round_magnitude \<bar>x\<bar> else round_magnitude \<bar>x\<bar>)"
    and "round_magnitude \<bar>x\<bar> \<le> max_double"
proof -
  have "round_magnitude \<bar>x\<bar> \<le> round_magnitude max_double"
    using assms by (intro round_magnitude_mono) simp_all
  then show le: "round_magnitude \<bar>x\<bar> \<le> max_double"
    by (simp add: round_magnitude_max_double)
  then have "\<not> pow2 1024 \<le> round_magnitude \<bar>x\<bar>"
    using max_double_less by linarith
  then show "round_double x = Finite (if x < 0 then - round_magnitude \<bar>x\<bar> else round_magnitude \<bar>x\<bar>)"
    by (simp add: round_double_def Let_def)
qed

subsection \<open>The traders\<close>

lemma example_position_simps:
  "trailing_stop (p_setup (example_position a e s t q)) = True"
  "trailing_stop_percentage (p_setup (example_position a e s t q)) = 0.05"
  "stop_loss (p_setup (example_position a e s t q)) = s"
  "target_price (p_setup (example_position a e s t q)) = t"
  "exit_time (p_setup (example_position a e s t q)) = 21600000000"
  "p_action (example_position a e s t q) = a"
  "p_entry_price (example_position a e s t q) = e"
  "p_quantity (example_position a e s t q) = q"
  "p_is_spread (example_position a e s t q) = False"
  "c_option_type (p_contract (example_position a e s t q)) = CALL"
  by (simp_all add: example_position_def example_contract_def make_setup_def Let_def)

lemma py_int_mono: "x \<le> y \<Longrightarrow> py_int x \<le> py_int y"
  unfolding py_int_def
  by (auto intro: floor_mono ceiling_mono order_trans [OF floor_le_ceiling] simp: not_le)
     (meson ceiling_le_zero less_eq_real_def order_trans zero_le_floor)

lemma py_int_nonpos: "x \<le> 0 \<Longrightarrow> py_int x \<le> 0"
  unfolding py_int_def by (auto simp: ceiling_le_zero)

lemma py_int_numeral [simp]: "py_int (numeral n) = numeral n"
  by (simp add: py_int_def)

lemma ce_pe_exit_check_trade_id:
  "ce_pe_exit_check tid pos cp ct = Some d \<Longrightarrow> d_trade_id d = tid"
  by (auto simp: ce_pe_exit_check_def split: if_splits)

lemma intraday_exit_check_trade_id:
  "intraday_exit_check tid pos cp ct = Some d \<Longrightarrow> d_trade_id d = tid"
  by (auto simp: intraday_exit_check_def split: if_splits)

lemma monitor_ce_pe_loop_other:
  "tid \<notin> fst ` set ps \<Longrightarrow> filter (\<lambda>d. d_trade_id d = tid) (monitor_ce_pe_loop ps cp ct) = []"
  by (induction ps cp ct rule: monitor_ce_pe_loop.induct)
     (auto split: option.splits dest: ce_pe_exit_check_trade_id)

lemma monitor_ce_pe_loop_filter:
  "distinct (map fst ps) \<Longrightarrow> (tid, pos) \<in> set ps \<Longrightarrow>
   filter (\<lambda>d. d_trade_id d = tid) (monitor_ce_pe_loop ps cp ct)
     = (case ce_pe_exit_check tid pos cp ct of None \<Rightarrow> [] | Some d \<Rightarrow> [d])"
proof (induction ps cp ct rule: monitor_ce_pe_loop.induct)
  case (1 cp ct)
  then show ?case by simp
next
  case (2 k p rest cp ct)
  show ?case
  proof (cases "k = tid")
    case True
    with 2 have p: "p = pos" and notin: "tid \<notin> fst ` set rest"
      by (auto simp: image_iff)
    show ?thesis
      using True p monitor_ce_pe_loop_other [OF notin, of cp ct]
      by (auto split: option.splits dest: ce_pe_exit_check_trade_id)
  next
    case False
    with 2 have "(tid, pos) \<in> set rest" "distinct (map fst rest)" by auto
    with 2 False show ?thesis
      by (auto split: option.splits dest: ce_pe_exit_check_trade_id)
  qed
qed

lemma monitor_intraday_loop_other:
  "tid \<notin> fst ` set ps \<Longrightarrow> filter (\<lambda>d. d_trade_id d = tid) (monitor_intraday_loop ps cp ct) = []"
  by (induction ps cp ct rule: monitor_intraday_loop.induct)
     (auto split: option.splits dest: intraday_exit_check_trade_id)

lemma monitor_intraday_loop_filter:
  "distinct (map fst ps) \<Longrightarrow> (tid, pos) \<in> set ps \<Longrightarrow>
   filter (\<lambda>d. d_trade_id d = tid) (monitor_intraday_loop ps cp ct)
     = (case intraday_exit_check tid pos cp ct of None \<Rightarrow> [] | Some d \<Rightarrow> [d])"
proof (induction ps cp ct rule: monitor_intraday_loop.induct)
  case (1 cp ct)
  then show ?case by simp
next
  case (2 k p rest cp ct)
  show ?case
  proof (cases "k = tid")
    case True
    with 2 have p: "p = pos" and notin: "tid \<notin> fst ` set rest"
      by (auto simp: image_iff)
    show ?thesis
      using True p monitor_intraday_loop_other [OF notin, of cp ct]
      by (auto split: option.splits dest: intraday_exit_check_trade_id)
  next
    case False
    with 2 have "(tid, pos) \<in> set rest" "distinct (map fst rest)" by auto
    with 2 False show ?thesis
      by (auto split: option.splits dest: intraday_exit_check_trade_id)
  qed
qed

lemma is_market_open_ten [simp]: "is_market_open ten_o_clock"
  by (simp add: is_market_open_def ten_o_clock_def microseconds_per_day_def
      market_open_time_def market_close_time_def)

lemma is_market_open_midnight [simp]: "\<not> is_market_open 0"
  by (simp add: is_market_open_def microseconds_per_day_def
      market_open_time_def market_close_time_def)

lemma str_int_3 [simp]: "str_int 3 = ''3''"
  by (simp add: str_int_def str_nat.simps digit_char_def)

lemma str_int_5 [simp]: "str_int 5 = ''5''"
  by (simp add: str_int_def str_nat.simps digit_char_def)

lemma str_int_2 [simp]: "str_int 2 = ''2''"
  by (simp add: str_int_def str_nat.simps digit_char_def)

lemma map_of_delete_same [simp]: "map_of (AList.delete k al) k = None"
  by (simp add: delete_conv')

lemma example_leg_simps [simp]:
  "p_action (example_leg tid ot) = BUY"
  "p_entry_price (example_leg tid ot) = 100"
  "p_quantity (example_leg tid ot) = 1"
  "p_is_spread (example_leg tid ot) = False"
  "c_option_type (p_contract (example_leg tid ot)) = ot"
  "stop_loss (p_setup (example_leg tid ot)) = 85"
  "target_price (p_setup (example_leg tid ot)) = 130"
  by (simp_all add: example_leg_def make_setup_def Let_def)

lemma three_calls_lookup:
  "map_of (intraday_positions three_calls_trader) ''T1'' = Some (example_leg ''T1'' CALL)"
  by (simp add: three_calls_trader_def)

lemma same_ledger_refl [simp]: "same_ledger s s"
  by (simp add: same_ledger_def)

lemma same_ledger_trans: "same_ledger s s1 \<Longrightarrow> same_ledger s1 s2 \<Longrightarrow> same_ledger s s2"
  by (simp add: same_ledger_def)

lemma same_ledger_updates [simp]:
  "same_ledger s (s\<lparr>account_balance := b\<rparr>)"
  "same_ledger s (s\<lparr>current_positions := cp\<rparr>)"
  "same_ledger s (s\<lparr>trade_history := th\<rparr>)"
  by (simp_all add: same_ledger_def)

lemma execute_trade_ledger: "execute_trade s t = Some s1 \<Longrightarrow> same_ledger s s1"
  unfolding execute_trade_def Let_def
  by (cases "t_action t = BUY"; cases "map_of (current_positions s) (contract_id (t_contract t))")
     (auto split: if_splits)

lemma update_positions_ledger: "update_positions s t = (ok, s1) \<Longrightarrow> same_ledger s s1"
  unfolding update_positions_def Let_def
  by (cases "t_action t = BUY"; cases "map_of (current_positions s) (contract_id (t_contract t))")
     (auto split: if_splits)

lemma place_option_order_ledger:
  assumes "place_option_order e s contract act qty = (r, s1)"
  shows "same_ledger s s1"
proof (cases "quote e")
  case None
  with assms have "s1 = s"
    by (simp add: place_option_order_def split: if_splits)
  then show ?thesis by simp
next
  case (Some q)
  obtain ask bid where q: "quote e = Some (ask, bid)" using Some by (cases q) simp
  define trade where "trade = \<lparr> t_contract = contract, t_action = act, t_quantity = qty,
                   t_price = (if act = BUY then ask else bid),
                   t_timestamp = now e, t_trade_id = new_trade_id e,
                   t_status = ''PENDING'' \<rparr>"
  show ?thesis
  proof (cases "execute_trade s trade")
    case None
    with assms q have "s1 = s"
      by (simp add: place_option_order_def Let_def trade_def split: if_splits)
    then show ?thesis by simp
  next
    case (Some s2)
    define trade1 where "trade1 = trade\<lparr>t_status := ''EXECUTED''\<rparr>"
    define s3 where "s3 = s2\<lparr>trade_history := trade_history s2 @ [trade1]\<rparr>"
    obtain ok s4 where up: "update_positions s3 trade1 = (ok, s4)"
      by (cases "update_positions s3 trade1")
    have "same_ledger s2 s3"
      by (simp add: s3_def)
    then have chain: "same_ledger s s4"
      using execute_trade_ledger [OF Some] update_positions_ledger [OF up]
      by (blast intro: same_ledger_trans)
    from assms q Some up have "s1 = s \<or> s1 = s4"
      by (simp add: place_option_order_def Let_def trade_def [symmetric] trade1_def [symmetric]
          s3_def [symmetric] split: if_splits bool.splits)
    with chain show ?thesis by auto
  qed
qed

lemma place_option_order_trade_id:
  assumes "place_option_order e s contract act qty = (Some trade, s1)"
  shows "t_trade_id trade = new_trade_id e"
proof (cases "quote e")
  case None
  with assms show ?thesis
    by (simp add: place_option_order_def split: if_splits)
next
  case (Some q)
  obtain ask bid where q: "quote e = Some (ask, bid)" using Some by (cases q) simp
  define trade0 where "trade0 = \<lparr> t_contract = contract, t_action = act, t_quantity = qty,
                   t_price = (if act = BUY then ask else bid),
                   t_timestamp = now e, t_trade_id = new_trade_id e,
                   t_status = ''PENDING'' \<rparr>"
  have id0: "t_trade_id (trade0\<lparr>t_status := ''EXECUTED''\<rparr>) = new_trade_id e"
    by (simp add: trade0_def)
  show ?thesis
  proof (cases "execute_trade s trade0")
    case None
    with assms q show ?thesis
      by (simp add: place_option_order_def Let_def trade0_def split: if_splits)
  next
    case (Some s2)
    define s3 where "s3 = s2\<lparr>trade_history := trade_history s2 @ [trade0\<lparr>t_status := ''EXECUTED''\<rparr>]\<rparr>"
    obtain ok s4 where up: "update_positions s3 (trade0\<lparr>t_status := ''EXECUTED''\<rparr>) = (ok, s4)"
      by (cases "update_positions s3 (trade0\<lparr>t_status := ''EXECUTED''\<rparr>)")
    from assms q Some up have "trade = trade0\<lparr>t_status := ''EXECUTED''\<rparr>"
      by (simp add: place_option_order_def Let_def trade0_def [symmetric]
          s3_def [symmetric] split: if_splits bool.splits)
    with id0 show ?thesis by simp
  qed
qed

lemma place_ce_pe_effect:
  assumes res: "place_ce_pe_intraday_trade e s contract act entry slp_arg tp_arg qty_arg risk_arg
                  mhh_arg is_spread = (r, s2)"
  shows "(r = None \<and> intraday_positions s2 = intraday_positions s
            \<and> ce_positions s2 = ce_positions s \<and> pe_positions s2 = pe_positions s
            \<and> spread_positions s2 = spread_positions s \<and> daily_pnl s2 = daily_pnl s)
       \<or> (\<exists>pos. r = Some pos \<and> p_trade_id pos = new_trade_id e
            \<and> fst (can_place_ce_pe_trade (now e) s (c_option_type contract) is_spread)
            \<and> intraday_positions s2 = AList.update (new_trade_id e) pos (intraday_positions s)
            \<and> ce_positions s2 = ce_positions s + (if c_option_type contract = CALL then 1 else 0)
            \<and> pe_positions s2 = pe_positions s + (if c_option_type contract = CALL then 0 else 1)
            \<and> spread_positions s2 = spread_positions s + (if is_spread then 1 else 0)
            \<and> daily_pnl s2 = daily_pnl s)"
proof (cases "fst (can_place_ce_pe_trade (now e) s (c_option_type contract) is_spread)")
  case False
  with res have "r = None" "s2 = s"
    by (simp_all add: place_ce_pe_intraday_trade_def)
  then show ?thesis by simp
next
  case True
  let ?slp = "(case slp_arg of None \<Rightarrow> intraday_stop_loss_percentage s | Some x \<Rightarrow> x)"
  let ?tp = "(case tp_arg of None \<Rightarrow> intraday_target_percentage s | Some x \<Rightarrow> x)"
  let ?mhh = "(case mhh_arg of None \<Rightarrow> max_holding_hours s | Some x \<Rightarrow> x)"
  let ?stop = "(if act = BUY
                     then (if c_option_type contract = CALL then entry * (1 - ?slp)
                           else entry * (1 - ?slp))
                     else (if c_option_type contract = CALL then entry * (1 + ?slp)
                           else entry * (1 + ?slp)))"
  let ?target = "(if act = BUY
                       then (if c_option_type contract = CALL then entry * (1 + ?tp)
                             else entry * (1 + ?tp))
                       else (if c_option_type contract = CALL then entry * (1 - ?tp)
                             else entry * (1 - ?tp)))"
  let ?qty = "(case qty_arg of
                      Some q \<Rightarrow> q
                    | None \<Rightarrow>
                        calculate_position_size (account_balance s) entry ?stop
                          (case risk_arg of
                             Some r \<Rightarrow> r
                           | None \<Rightarrow>
                               (if is_spread
                                then account_balance s * max_intraday_risk s * spread_risk_multiplier s
                                else account_balance s * max_intraday_risk s)))"
  show ?thesis
  proof (cases "timedelta_hours ?mhh")
    case None
    have "place_ce_pe_intraday_trade e s contract act entry slp_arg tp_arg qty_arg risk_arg
            mhh_arg is_spread = (None, s)"
      unfolding place_ce_pe_intraday_trade_def
      by (simp only: Let_def True None not_True_eq_False if_False option.case)
    with res have "r = None" "s2 = s" by simp_all
    then show ?thesis by simp
  next
    case (Some hold)
    note td = Some
    show ?thesis
    proof (cases "datetime_add (now e) hold")
      case None
      have "place_ce_pe_intraday_trade e s contract act entry slp_arg tp_arg qty_arg risk_arg
              mhh_arg is_spread = (None, s)"
        unfolding place_ce_pe_intraday_trade_def
        by (simp only: Let_def True td None not_True_eq_False if_False option.case)
      with res have "r = None" "s2 = s" by simp_all
      then show ?thesis by simp
    next
      case (Some xtime)
      note da = Some
      let ?tsetup = "make_setup entry ?stop ?target ?qty (now e) hold (Some xtime) ?stop True 0.05
                      (c_option_type contract) (c_strike_price contract) is_spread"
      let ?pos = "\<lambda>trade. \<lparr> p_trade_id = t_trade_id trade, p_contract = contract, p_action = act,
                             p_quantity = ?qty, p_entry_price = entry, p_stop_loss = ?stop,
                             p_target_price = ?target, p_entry_time = now e,
                             p_setup = ?tsetup, p_is_spread = is_spread \<rparr>"
      obtain r1 s1 where po: "place_option_order e s contract act ?qty = (r1, s1)"
        by (cases "place_option_order e s contract act ?qty")
      have ledger: "same_ledger s s1"
        by (rule place_option_order_ledger [OF po])
      have unfold: "place_ce_pe_intraday_trade e s contract act entry slp_arg tp_arg qty_arg risk_arg
                      mhh_arg is_spread =
         (case r1 of
            None \<Rightarrow> (None, s1)
          | Some trade \<Rightarrow>
                    (let s2 = s1\<lparr>intraday_positions :=
                                   AList.update (t_trade_id trade) (?pos trade) (intraday_positions s1)\<rparr>;
                         s3 = (if c_option_type contract = CALL
                               then s2\<lparr>ce_positions := ce_positions s2 + 1\<rparr>
                               else s2\<lparr>pe_positions := pe_positions s2 + 1\<rparr>);
                         s4 = (if is_spread then s3\<lparr>spread_positions := spread_positions s3 + 1\<rparr>
                               else s3)
                     in (Some (?pos trade), s4)))"
        unfolding place_ce_pe_intraday_trade_def
        by (simp only: Let_def True td da po not_True_eq_False if_False option.case prod.case)
      show ?thesis
      proof (cases r1)
        case None
        with res unfold have "r = None" "s2 = s1" by simp_all
        with ledger show ?thesis by (simp add: same_ledger_def)
      next
        case (Some trade)
        have tid: "t_trade_id trade = new_trade_id e"
          using po Some by (auto intro: place_option_order_trade_id)
        define pos where "pos = ?pos trade"
        have pid: "p_trade_id pos = new_trade_id e"
          by (simp add: pos_def tid)
        from res unfold Some have r: "r = Some pos"
          and s2: "s2 = (let s2 = s1\<lparr>intraday_positions :=
                                   AList.update (t_trade_id trade) pos (intraday_positions s1)\<rparr>;
                         s3 = (if c_option_type contract = CALL
                               then s2\<lparr>ce_positions := ce_positions s2 + 1\<rparr>
                               else s2\<lparr>pe_positions := pe_positions s2 + 1\<rparr>)
                         in (if is_spread then s3\<lparr>spread_positions := spread_positions s3 + 1\<rparr>
                               else s3))"
          by (simp_all only: pos_def Let_def option.case prod.inject)
        from r pid s2 tid True ledger show ?thesis
          by (cases "c_option_type contract = CALL"; cases is_spread)
             (simp_all add: Let_def same_ledger_def)
      qed
    qed
  qed
qed

lemma map_of_update_same [simp]: "map_of (AList.update k v al) k = Some v"
  by (simp add: update_conv')

lemma place_ce_pe_nonneg:
  assumes "0 \<le> ce_positions s" and "0 \<le> pe_positions s" and "0 \<le> spread_positions s"
  shows "0 \<le> ce_positions (snd (place_ce_pe_intraday_trade e s contract act entry slp tp qty
                                     risk_arg mhh is_spread))
       \<and> 0 \<le> pe_positions (snd (place_ce_pe_intraday_trade e s contract act entry slp tp qty
                                     risk_arg mhh is_spread))
       \<and> 0 \<le> spread_positions (snd (place_ce_pe_intraday_trade e s contract act entry slp tp qty
                                     risk_arg mhh is_spread))"
proof -
  obtain r s2 where res: "place_ce_pe_intraday_trade e s contract act entry slp tp qty
                            risk_arg mhh is_spread = (r, s2)"
    by (cases "place_ce_pe_intraday_trade e s contract act entry slp tp qty risk_arg mhh is_spread")
  from place_ce_pe_effect [OF res] assms show ?thesis
    unfolding res by auto
qed

lemma exit_ce_pe_nonneg:
  assumes "0 \<le> ce_positions s" and "0 \<le> pe_positions s" and "0 \<le> spread_positions s"
  shows "0 \<le> ce_positions (snd (exit_ce_pe_position t s tid reason price))
       \<and> 0 \<le> pe_positions (snd (exit_ce_pe_position t s tid reason price))
       \<and> 0 \<le> spread_positions (snd (exit_ce_pe_position t s tid reason price))"
  using assms
  by (cases "map_of (intraday_positions s) tid")
     (simp_all add: exit_ce_pe_position_def Let_def)

lemma snd_place_strangle:
  "snd (place_strangle_trade e_ce e_pe s strike_ce strike_pe expiry entry_ce entry_pe slp tp qty risk_arg)
     = snd (place_ce_pe_intraday_trade e_pe
              (snd (place_ce_pe_intraday_trade e_ce s
                      \<lparr> c_strike_price = strike_ce, c_option_type = CALL, expiry_date = expiry,
                        lot_size = 50, underlying = ''NIFTY50'' \<rparr>
                      BUY entry_ce (Some slp) (Some tp) (Some qty) risk_arg None True))
              \<lparr> c_strike_price = strike_pe, c_option_type = PUT, expiry_date = expiry,
                lot_size = 50, underlying = ''NIFTY50'' \<rparr>
              BUY entry_pe (Some slp) (Some tp) (Some qty) risk_arg None True)"
  by (simp add: place_strangle_trade_def Let_def split: prod.splits option.splits)

lemma straddle_is_strangle:
  "place_straddle_trade e_ce e_pe s strike expiry entry_ce entry_pe slp tp qty risk_arg
     = place_strangle_trade e_ce e_pe s strike strike expiry entry_ce entry_pe slp tp qty risk_arg"
  by (simp add: place_straddle_trade_def place_strangle_trade_def)

lemma apply_operation_nonneg:
  assumes "0 \<le> ce_positions s \<and> 0 \<le> pe_positions s \<and> 0 \<le> spread_positions s"
  shows "0 \<le> ce_positions (apply_operation s op) \<and> 0 \<le> pe_positions (apply_operation s op)
       \<and> 0 \<le> spread_positions (apply_operation s op)"
proof (cases op)
  case (Place e contract act entry slp tp qty risk_arg mhh is_spread)
  with assms show ?thesis by (simp add: place_ce_pe_nonneg)
next
  case (Exit t tid reason price)
  with assms show ?thesis by (simp add: exit_ce_pe_nonneg)
next
  case (Straddle e_ce e_pe strike expiry entry_ce entry_pe slp tp qty risk_arg)
  with assms show ?thesis
    by (simp add: straddle_is_strangle snd_place_strangle place_ce_pe_nonneg)
next
  case (Strangle e_ce e_pe strike_ce strike_pe expiry entry_ce entry_pe slp tp qty risk_arg)
  with assms show ?thesis
    by (simp add: snd_place_strangle place_ce_pe_nonneg)
qed

lemma init_counters: "ce_positions init_trader = 0" "pe_positions init_trader = 0" "spread_positions init_trader = 0"
  by (simp_all add: init_trader_def)

lemma run_eval: "ce_positions (run init_trader unmatched_exit_run) = 1"
  by code_simp


lemma uncounted_eval:
  "ce_positions (run uncounted_trader [Exit ten_o_clock ''T1'' ''TARGET_HIT'' 130]) = 0"
  by code_simp

lemma orphan_first_leg:
  "fst (place_ce_pe_intraday_trade (example_env ''T3'') after_exit ce_25000 BUY 100
            (Some 0.15) (Some 0.30) (Some 1) None None True) \<noteq> None"
  by code_simp

lemma orphan_second_leg:
  "place_ce_pe_intraday_trade (example_env ''T4'') after_orphan_leg pe_25000 BUY 100
            (Some 0.15) (Some 0.30) (Some 1) None None True = (None, after_orphan_leg)"
  by code_simp

subsection \<open>Trailing levels in doubles\<close>

lemma pow2_strict_mono: "e < e' \<Longrightarrow> pow2 e < pow2 e'"
  unfolding pow2_def by (rule power_int_strict_increasing) simp_all

lemma round_double_min_normal: "round_double (pow2 (- 1022)) = Finite (pow2 (- 1022))"
proof -
  have "round_magnitude (pow2 (- 1022)) < pow2 1024"
    unfolding round_magnitude_min_normal by (rule pow2_strict_mono) simp
  then show ?thesis
    using round_double_nonneg_cases [of "pow2 (- 1022)"]
    by (auto simp: round_magnitude_min_normal)
qed

lemma round_double_one: "round_double 1 = Finite 1"
proof -
  have "pow2 52 = of_int (2 ^ 52)" by (simp add: pow2_def)
  moreover have "pow2 52 < pow2 53" using two_powi_Suc [of 52] pow2_pos [of 52] by simp
  moreover have "pow2 52 * pow2 (0 - 52) = pow2 0" using pow2_add [of 52 "0 - 52"] by simp
  ultimately have rm: "round_magnitude 1 = 1"
    using round_magnitude_normal_exact [of 0 "2 ^ 52"] by simp
  have "(1::real) < pow2 1024"
    using pow2_strict_mono [of 0 1024] by simp
  then show ?thesis
    using round_double_nonneg_cases [of 1] by (auto simp: rm)
qed

text \<open>A real within the range of the finite doubles rounds to a finite double close to it.\<close>

lemma round_double_nonneg_close:
  assumes "0 \<le> x" and "x \<le> max_double"
  obtains r where "round_double x = Finite r" and "0 \<le> r" and "r \<le> max_double"
    and "\<bar>r - x\<bar> \<le> pow2 (- 53) * max x (pow2 (- 1022))"
proof -
  from assms have ax: "\<bar>x\<bar> = x" and nn: "\<not> x < 0" by simp_all
  have "\<bar>x\<bar> \<le> max_double" using assms by simp
  from round_double_finite [OF this]
  have "round_double x = Finite (round_magnitude x)" and "round_magnitude x \<le> max_double"
    using ax nn by simp_all
  moreover have "0 \<le> round_magnitude x" using assms(1) by (rule round_magnitude_nonneg)
  moreover have "\<bar>round_magnitude x - x\<bar> \<le> pow2 (- 53) * max x (pow2 (- 1022))"
    using assms(1) by (rule round_magnitude_relative_error)
  ultimately show ?thesis using that by blast
qed

lemma round_double_le_one:
  assumes "0 \<le> x" and "x \<le> 1"
  obtains r where "round_double x = Finite r" and "r \<le> 1"
proof -
  have "fle (round_double x) (round_double 1)" using assms(2) by (rule round_double_mono)
  moreover have "fle (Finite 0) (round_double x)" using assms(1) by (rule round_double_sign)
  ultimately show ?thesis
    using that by (cases "round_double x") (simp_all add: round_double_one)
qed

lemma unit_roundoff:
  "pow2 (- 51) = 4 * pow2 (- 53)" "0 < pow2 (- 53)" "pow2 (- 53) \<le> 1 / 8"
    "pow2 (- 1022) \<le> pow2 (- 51)" "pow2 (- 1022) \<le> 1"
proof -
  show "pow2 (- 51) = 4 * pow2 (- 53)"
    using pow2_add [of 2 "- 53"] by (simp add: pow2_def)
  show "0 < pow2 (- 53)" by simp
  have "pow2 (- 53) \<le> pow2 (- 3)" by (intro two_powi_mono) simp
  then show "pow2 (- 53) \<le> 1 / 8" by (simp add: pow2_def)
  show "pow2 (- 1022) \<le> pow2 (- 51)" by (intro two_powi_mono) simp
  have "pow2 (- 1022) \<le> pow2 0" by (intro two_powi_mono) simp
  then show "pow2 (- 1022) \<le> 1" by simp
qed

lemma fraction_after_rounding:
  fixes u f f' :: real
  assumes u: "0 < u" "u \<le> 1 / 8" and f: "4 * u \<le> f" and err: "\<bar>f' - f\<bar> \<le> u * f"
  shows "7 / 2 * u \<le> f'"
proof -
  have "f * (1 - u) \<le> f'" using err by (simp add: algebra_simps abs_le_iff)
  moreover have "4 * u * (1 - u) \<le> f * (1 - u)"
    using f u by (intro mult_right_mono) simp_all
  moreover have "u * u \<le> u * (1 / 8)"
    using u by (intro mult_left_mono) simp_all
  then have "4 * u - u / 2 \<le> 4 * u * (1 - u)" by (simp add: algebra_simps)
  ultimately show ?thesis by linarith
qed

lemma level_below_price:
  fixes u p c t :: real
  assumes u: "0 < u" and p: "0 < p" and c: "0 \<le> c" "c \<le> 1 - 5 / 2 * u"
    and err: "\<bar>t - p * c\<bar> \<le> u * p"
  shows "t < p"
proof -
  have "p * c \<le> p * (1 - 5 / 2 * u)" using c p by (intro mult_left_mono) simp_all
  then have "p * c \<le> p - 5 / 2 * (u * p)" by (simp add: algebra_simps)
  moreover have "t \<le> p * c + u * p" using err by (simp add: abs_le_iff)
  moreover have "0 < u * p" using u p by simp
  ultimately show ?thesis by linarith
qed

lemma level_above_price:
  fixes u p c t :: real
  assumes u: "0 < u" "u \<le> 1 / 8" and p: "0 < p" and c: "1 + 3 / 2 * u \<le> c"
    and err: "\<bar>t - p * c\<bar> \<le> u * (p * c)"
  shows "p < t"
proof -
  have "p * c * (1 - u) \<le> t" using err by (simp add: algebra_simps abs_le_iff)
  moreover have "p * (1 + 3 / 2 * u) \<le> p * c" using c p by (intro mult_left_mono) simp_all
  then have "p * (1 + 3 / 2 * u) * (1 - u) \<le> p * c * (1 - u)"
    using u by (intro mult_right_mono) simp_all
  moreover have "p < p * (1 + 3 / 2 * u) * (1 - u)"
  proof -
    have "u * u \<le> u * (1 / 8)" using u by (intro mult_left_mono) simp_all
    then have "1 < (1 + 3 / 2 * u) * (1 - u)" using u by (simp add: algebra_simps)
    then have "p * 1 < p * ((1 + 3 / 2 * u) * (1 - u))"
      using p by (intro mult_strict_left_mono)
    then show ?thesis by (simp add: mult.assoc)
  qed
  ultimately show ?thesis by linarith
qed

lemma one_le_max_double: "2 \<le> max_double"
proof -
  have "pow2 971 * 2 = pow2 972" using two_powi_Suc [of 971] by simp
  moreover have "pow2 972 \<le> pow2 1024" by (intro two_powi_mono) simp
  moreover have "pow2 1 \<le> pow2 971" by (intro two_powi_mono) simp
  ultimately show ?thesis by (simp add: max_double_def)
qed

lemma trailing_level_rounding:
  assumes f: "pow2 (- 51) \<le> f" "f < 1"
    and p: "pow2 (- 1022) \<le> cp" "cp \<le> max_double"
  shows "\<not> fle (round_double cp) (fmul (round_double cp) (fsub (Finite 1) (round_double f)))"
    and "\<not> fge (round_double cp) (fmul (round_double cp) (fadd (Finite 1) (round_double f)))"
proof -
  define u where "u = pow2 (- 53)"
  have u: "0 < u" "u \<le> 1 / 8" and f4: "4 * u \<le> f" and tiny: "pow2 (- 1022) \<le> f" "pow2 (- 1022) \<le> 1"
    using unit_roundoff f(1) by (simp_all add: u_def)
  have cp0: "0 \<le> cp" using p(1) pow2_pos [of "- 1022"] by linarith
  \<comment> \<open>the price as a double\<close>
  obtain q where q: "round_double cp = Finite q" and q_hi: "q \<le> max_double"
    using round_double_nonneg_close [OF cp0 p(2)] by blast
  have "fle (round_double (pow2 (- 1022))) (round_double cp)"
    using p(1) by (rule round_double_mono)
  then have q_lo: "pow2 (- 1022) \<le> q" by (simp add: round_double_min_normal q)
  then have q_pos: "0 < q" using pow2_pos [of "- 1022"] by linarith
  \<comment> \<open>the fraction as a double\<close>
  have f0: "0 \<le> f" using f4 u by linarith
  have f_max: "f \<le> max_double" using f(2) one_le_max_double by linarith
  obtain g where g: "round_double f = Finite g"
    and g_err: "\<bar>g - f\<bar> \<le> pow2 (- 53) * max f (pow2 (- 1022))"
    using round_double_nonneg_close [OF f0 f_max] by blast
  obtain g' where "round_double f = Finite g'" and "g' \<le> 1"
    using round_double_le_one [of f] f0 f(2) by auto
  with g have g1: "g \<le> 1" by simp
  have "max f (pow2 (- 1022)) = f" using tiny by simp
  with g_err have "\<bar>g - f\<bar> \<le> u * f" unfolding u_def by simp
  with u f4 have g_lo: "7 / 2 * u \<le> g" by (rule fraction_after_rounding)
  \<comment> \<open>long side\<close>
  have x0: "0 \<le> 1 - g" using g1 by simp
  have x_max: "1 - g \<le> max_double" using g_lo u one_le_max_double by linarith
  obtain c where c: "round_double (1 - g) = Finite c" and c0: "0 \<le> c"
    and c_err: "\<bar>c - (1 - g)\<bar> \<le> pow2 (- 53) * max (1 - g) (pow2 (- 1022))"
    using round_double_nonneg_close [OF x0 x_max] by blast
  define mc where "mc = u * max (1 - g) (pow2 (- 1022))"
  have "max (1 - g) (pow2 (- 1022)) \<le> 1" using g_lo u tiny by simp
  then have "u * max (1 - g) (pow2 (- 1022)) \<le> u * 1"
    using u by (intro mult_left_mono) simp_all
  then have mc: "mc \<le> u" by (simp add: mc_def)
  have "\<bar>c - (1 - g)\<bar> \<le> mc" using c_err by (simp add: mc_def u_def)
  with mc g_lo have c_hi: "c \<le> 1 - 5 / 2 * u" by linarith
  have c1: "c \<le> 1" using c_hi u by linarith
  have y0: "0 \<le> q * c" using q_pos c0 by simp
  have y_le: "q * c \<le> q" using mult_left_mono [OF c1, of q] q_pos by simp
  then have y_max: "q * c \<le> max_double" using q_hi by linarith
  obtain t where t: "round_double (q * c) = Finite t"
    and t_err: "\<bar>t - q * c\<bar> \<le> pow2 (- 53) * max (q * c) (pow2 (- 1022))"
    using round_double_nonneg_close [OF y0 y_max] by blast
  define mt where "mt = u * max (q * c) (pow2 (- 1022))"
  have "max (q * c) (pow2 (- 1022)) \<le> q" using y_le q_lo by simp
  then have "u * max (q * c) (pow2 (- 1022)) \<le> u * q"
    using u by (intro mult_left_mono) simp_all
  then have mt: "mt \<le> u * q" by (simp add: mt_def)
  have "\<bar>t - q * c\<bar> \<le> mt" using t_err by (simp add: mt_def u_def)
  with mt have "\<bar>t - q * c\<bar> \<le> u * q" by linarith
  with u(1) q_pos c0 c_hi have "t < q" by (rule level_below_price)
  then show "\<not> fle (round_double cp) (fmul (round_double cp) (fsub (Finite 1) (round_double f)))"
    by (simp add: q g fsub_def c t)
  \<comment> \<open>short side\<close>
  have z0: "0 \<le> 1 + g" using g_lo u by linarith
  have z_max: "1 + g \<le> max_double" using g1 one_le_max_double by linarith
  obtain d where d: "round_double (1 + g) = Finite d"
    and d_err: "\<bar>d - (1 + g)\<bar> \<le> pow2 (- 53) * max (1 + g) (pow2 (- 1022))"
    using round_double_nonneg_close [OF z0 z_max] by blast
  define md where "md = u * max (1 + g) (pow2 (- 1022))"
  have "max (1 + g) (pow2 (- 1022)) \<le> 2" using g1 tiny by simp
  then have "u * max (1 + g) (pow2 (- 1022)) \<le> u * 2"
    using u by (intro mult_left_mono) simp_all
  then have md: "md \<le> 2 * u" by (simp add: md_def)
  have "\<bar>d - (1 + g)\<bar> \<le> md" using d_err by (simp add: md_def u_def)
  with md g_lo have d_lo: "1 + 3 / 2 * u \<le> d" by linarith
  have d1: "1 \<le> d" using d_lo u by linarith
  have w_ge: "q \<le> q * d" using mult_left_mono [OF d1, of q] q_pos by simp
  then have w0: "0 \<le> q * d" using q_pos by linarith
  have w_norm: "max (q * d) (pow2 (- 1022)) = q * d" using w_ge q_lo by simp
  have "\<not> fle (round_double (q * d)) (Finite q)"
  proof -
    from round_double_nonneg_cases [OF w0] show ?thesis
    proof
      assume "round_double (q * d) = PlusInf \<and> pow2 1024 \<le> round_magnitude (q * d) \<and> 0 < q * d"
      then show ?thesis by simp
    next
      assume fin: "round_double (q * d) = Finite (round_magnitude (q * d))
                   \<and> round_magnitude (q * d) < pow2 1024"
      have "\<bar>round_magnitude (q * d) - q * d\<bar> \<le> pow2 (- 53) * max (q * d) (pow2 (- 1022))"
        using w0 by (rule round_magnitude_relative_error)
      then have "\<bar>round_magnitude (q * d) - q * d\<bar> \<le> u * (q * d)"
        unfolding w_norm u_def .
      with u q_pos d_lo have "q < round_magnitude (q * d)" by (rule level_above_price)
      with fin show ?thesis by simp
    qed
  qed
  then show "\<not> fge (round_double cp) (fmul (round_double cp) (fadd (Finite 1) (round_double f)))"
    by (simp add: q g fge_def d)
qed

text \<open>Evaluating a rounding: the binade and the nearest integer are given and checked.\<close>

lemma round_double_normalI:
  assumes x: "pow2 e \<le> x" "x < pow2 (e + 1)" and e: "- 1022 \<le> e" "e \<le> 1023"
    and m: "of_int m - 1 / 2 < x / pow2 (e - 52)" "x / pow2 (e - 52) < of_int m + 1 / 2"
    and fin: "of_int m * pow2 (e - 52) < pow2 1024"
  shows "round_double x = Finite (of_int m * pow2 (e - 52))"
proof -
  have pos: "0 < x" using x(1) pow2_pos [of e] by linarith
  have de: "double_exponent x = e" using x e by (rule double_exponent_eqI)
  have rhe: "round_half_even (x / pow2 (e - 52)) = m" using m by (rule round_half_even_eqI)
  have rm: "round_magnitude x = of_int m * pow2 (e - 52)"
    by (simp add: round_magnitude_def de rhe Let_def)
  show ?thesis
    using round_double_nonneg_cases [of x] pos fin by (auto simp: rm)
qed

lemma round_double_subnormalI:
  assumes x: "0 \<le> x" "x < pow2 (- 1022)"
    and m: "of_int m - 1 / 2 < x / pow2 (- 1074)" "x / pow2 (- 1074) < of_int m + 1 / 2"
    and fin: "of_int m * pow2 (- 1074) < pow2 1024"
  shows "round_double x = Finite (of_int m * pow2 (- 1074))"
proof -
  have de: "double_exponent x = - 1022" using x(2) by (rule double_exponent_subnormal)
  have rhe: "round_half_even (x / pow2 (- 1074)) = m" using m by (rule round_half_even_eqI)
  have rm: "round_magnitude x = of_int m * pow2 (- 1074)"
    by (simp add: round_magnitude_def de rhe Let_def)
  show ?thesis
    using round_double_nonneg_cases [of x] x(1) fin by (auto simp: rm)
qed

lemma small_less_pow2_1024: "x \<le> pow2 1000 \<Longrightarrow> x < pow2 1024"
  using pow2_strict_mono [of 1000 1024] by simp

lemma round_double_100: "round_double 100 = Finite 100"
proof -
  have "round_double 100 = Finite (of_int (100 * 2 ^ 46) * pow2 (6 - 52))"
    by (rule round_double_normalI) (simp_all add: pow2_def small_less_pow2_1024 [unfolded pow2_def])
  then show ?thesis by (simp add: pow2_def)
qed

lemma round_double_2_60: "round_double (pow2 (- 60)) = Finite (pow2 (- 60))"
proof -
  have "round_double (pow2 (- 60)) = Finite (of_int (2 ^ 52) * pow2 (- 60 - 52))"
    by (rule round_double_normalI) (simp_all add: pow2_def small_less_pow2_1024 [unfolded pow2_def])
  then show ?thesis by (simp add: pow2_def)
qed

lemma round_double_near_one: "round_double (1 - pow2 (- 60)) = Finite 1"
proof -
  have "round_double (1 - pow2 (- 60)) = Finite (of_int (2 ^ 53) * pow2 (- 1 - 52))"
    by (rule round_double_normalI) (simp_all add: pow2_def small_less_pow2_1024 [unfolded pow2_def])
  then show ?thesis by (simp add: pow2_def)
qed

lemma tiny_fraction_position_simps:
  "trailing_stop (p_setup tiny_fraction_position) = True"
  "trailing_stop_percentage (p_setup tiny_fraction_position) = pow2 (- 60)"
  "stop_loss (p_setup tiny_fraction_position) = 85"
  "target_price (p_setup tiny_fraction_position) = 130"
  "exit_time (p_setup tiny_fraction_position) = 21600000000"
  "p_action tiny_fraction_position = BUY"
  by (simp_all add: tiny_fraction_position_def example_position_def make_setup_def Let_def)

lemma pow2_nonzero [simp]: "pow2 e \<noteq> 0"
  using pow2_pos [of e] by linarith

lemma round_double_min_subnormal: "round_double (pow2 (- 1074)) = Finite (pow2 (- 1074))"
proof -
  have lt: "pow2 (- 1074) < pow2 (- 1022)" by (rule pow2_strict_mono) simp
  have "pow2 (- 1074) < pow2 1024" by (rule pow2_strict_mono) simp
  then have "round_double (pow2 (- 1074)) = Finite (of_int 1 * pow2 (- 1074))"
    using lt by (intro round_double_subnormalI) simp_all
  then show ?thesis by simp
qed

lemma round_double_0_05: "round_double 0.05 = Finite (7205759403792794 * pow2 (- 57))"
proof -
  have "round_double 0.05 = Finite (of_int 7205759403792794 * pow2 (- 5 - 52))"
    by (rule round_double_normalI) (simp_all add: pow2_def small_less_pow2_1024 [unfolded pow2_def])
  then show ?thesis by simp
qed

lemma round_double_twentieth: "round_double (1 / 20) = Finite (7205759403792794 * pow2 (- 57))"
  using round_double_0_05 by simp

lemma round_double_0_95:
  "round_double (1 - 7205759403792794 * pow2 (- 57)) = Finite (8556839292003942 * pow2 (- 53))"
proof -
  have "round_double (1 - 7205759403792794 * pow2 (- 57))
          = Finite (of_int 8556839292003942 * pow2 (- 1 - 52))"
    by (rule round_double_normalI) (simp_all add: pow2_def small_less_pow2_1024 [unfolded pow2_def])
  then show ?thesis by simp
qed

lemma round_double_subnormal_level:
  "round_double (pow2 (- 1074) * (8556839292003942 * pow2 (- 53))) = Finite (pow2 (- 1074))"
proof -
  define c :: real where "c = 8556839292003942 * pow2 (- 53)"
  have c: "1 / 2 < c" "c < 1" by (simp_all add: c_def pow2_def)
  have "pow2 (- 1074) * c < pow2 (- 1074) * 1"
    using c by (intro mult_strict_left_mono) simp_all
  then have "pow2 (- 1074) * c < pow2 (- 1074)" by simp
  moreover have "pow2 (- 1074) \<le> pow2 (- 1022)" by (rule two_powi_mono) simp
  ultimately have lt: "pow2 (- 1074) * c < pow2 (- 1022)" by linarith
  have fin: "pow2 (- 1074) < pow2 1024" by (rule pow2_strict_mono) simp
  have "round_double (pow2 (- 1074) * c) = Finite (of_int 1 * pow2 (- 1074))"
    using lt c fin by (intro round_double_subnormalI) simp_all
  then show ?thesis by (simp add: c_def)
qed

lemma max_double_ge: "pow2 1023 \<le> max_double"
proof -
  have "pow2 1024 = 2 * pow2 1023" using two_powi_Suc [of 1023] by simp
  moreover have "pow2 971 \<le> pow2 1023" by (rule two_powi_mono) simp
  ultimately show ?thesis by (simp add: max_double_def)
qed

subsection \<open>Sizing in doubles\<close>

lemma round_double_not_nan [simp]: "round_double x \<noteq> NaN"
  by (simp add: round_double_def Let_def)

lemma fle_refl_round [simp]: "fle (round_double x) (round_double x)"
  by (rule round_double_mono) simp

lemma fle_Finite_PlusInf [simp]: "fle (round_double x) PlusInf"
  by (cases "round_double x") simp_all

lemma int_of_float_Finite: "int_of_float (Finite x) = Some (py_int x)"
  by (simp add: py_int_def)

lemma fmul_50_mono:
  assumes "fle a b" and "fle (Finite 0) a"
  shows "fle (fmul a (Finite 50)) (fmul b (Finite 50))"
proof (cases a)
  case (Finite x)
  with assms(2) have x: "0 \<le> x" by simp
  show ?thesis
  proof (cases b)
    case (Finite y)
    with assms(1) \<open>a = Finite x\<close> have "x \<le> y" by simp
    then have "x * 50 \<le> y * 50" by simp
    then show ?thesis
      using \<open>a = Finite x\<close> Finite by (simp add: round_double_mono)
  next
    case PlusInf
    then show ?thesis using \<open>a = Finite x\<close> by (simp add: signed_inf_def)
  next
    case MinusInf
    with assms(1) \<open>a = Finite x\<close> show ?thesis by simp
  next
    case NaN
    with assms(1) \<open>a = Finite x\<close> show ?thesis by simp
  qed
next
  case PlusInf
  with assms(1) have "b = PlusInf" by (cases b) simp_all
  with PlusInf show ?thesis by (simp add: signed_inf_def)
next
  case MinusInf
  with assms(2) show ?thesis by simp
next
  case NaN
  with assms(2) show ?thesis by simp
qed

lemma lots_by_risk_lots_for:
  "lots_by_risk entry stop risk_amount
     = lots_for (round_double risk_amount) (risk_per_lot_ieee entry stop)"
  by (simp add: lots_by_risk_def lots_for_def)

lemma lots_for_finite_budget:
  assumes "lots_for budget rpl = Some n" and "\<not> fle rpl (Finite 0)" and "rpl \<noteq> NaN"
  obtains b where "budget = Finite b"
proof (cases budget)
  case (Finite b)
  then show ?thesis using that by simp
next
  case PlusInf
  with assms show ?thesis
    by (cases rpl) (simp_all add: lots_for_def signed_inf_def split: if_splits)
next
  case MinusInf
  with assms show ?thesis
    by (cases rpl) (simp_all add: lots_for_def signed_inf_def split: if_splits)
next
  case NaN
  with assms show ?thesis
    by (cases rpl) (simp_all add: lots_for_def split: if_splits)
qed

lemma lots_for_PlusInf: "lots_for (Finite b) PlusInf = Some 0"
  by (simp add: lots_for_def)

lemma lots_for_Finite:
  "r \<noteq> 0 \<Longrightarrow> lots_for (Finite b) (Finite r) = int_of_float (round_double (b / r))"
  by (simp add: lots_for_def)

lemma clamp_mono: "(n2::int) \<le> n1 \<Longrightarrow> (if n2 < 1 then 1 else n2) \<le> (if n1 < 1 then 1 else n1)"
  by simp

lemma lots_for_antimono:
  assumes ord: "fle r1 r2" and pos: "\<not> fle r1 (Finite 0)" and def1: "lots_for budget r1 = Some n1"
  shows "\<exists>n2. lots_for budget r2 = Some n2
              \<and> (if n2 < 1 then 1 else n2) \<le> (if n1 < 1 then 1 else n1)"
proof -
  have nn1: "r1 \<noteq> NaN" using ord by (cases r1) simp_all
  obtain b where b: "budget = Finite b"
    using lots_for_finite_budget [OF def1 pos nn1] by blast
  show ?thesis
  proof (cases r2)
    case NaN
    with ord show ?thesis by (cases r1) simp_all
  next
    case MinusInf
    with ord pos show ?thesis by (cases r1) simp_all
  next
    case PlusInf
    then show ?thesis by (simp add: b lots_for_PlusInf)
  next
    case (Finite y)
    obtain x where r1: "r1 = Finite x"
      using ord pos Finite by (cases r1) simp_all
    have x: "0 < x" using pos r1 by simp
    have xy: "x \<le> y" using ord r1 Finite by simp
    then have y: "0 < y" using x by linarith
    obtain v1 where v1: "round_double (b / x) = Finite v1" and n1: "n1 = py_int v1"
      using def1 x by (cases "round_double (b / x)") (simp_all add: b r1 lots_for_Finite py_int_def)
    show ?thesis
    proof (cases "0 \<le> b")
      case True
      have q: "0 \<le> b / y" "b / y \<le> b / x"
        using True x y xy by (simp_all add: frac_le)
      have "fle (Finite 0) (round_double (b / y))" using q(1) by (rule round_double_sign)
      moreover have "fle (round_double (b / y)) (Finite v1)"
        using round_double_mono [OF q(2)] by (simp add: v1)
      ultimately obtain v2 where v2: "round_double (b / y) = Finite v2" and "v2 \<le> v1"
        by (cases "round_double (b / y)") simp_all
      then have "py_int v2 \<le> py_int v1" by (intro py_int_mono)
      then show ?thesis
        using y by (simp add: b Finite lots_for_Finite v2 int_of_float_Finite n1 del: int_of_float.simps)
    next
      case False
      then have q: "b / x \<le> b / y" "b / y \<le> 0"
        using x y xy by (simp_all add: divide_left_mono_neg divide_le_0_iff)
      have "fle (Finite v1) (round_double (b / y))"
        using round_double_mono [OF q(1)] by (simp add: v1)
      moreover have "fle (round_double (b / y)) (Finite 0)"
        using round_double_mono [OF q(2)] by simp
      ultimately obtain v2 where v2: "round_double (b / y) = Finite v2" and "v2 \<le> 0"
        by (cases "round_double (b / y)") simp_all
      then have "py_int v2 \<le> 0" by (intro py_int_nonpos)
      then show ?thesis
        using y by (simp add: b Finite lots_for_Finite v2 int_of_float_Finite del: int_of_float.simps)
    qed
  qed
qed

lemma sizing_antimono_in_risk_per_lot:
  assumes ord: "fle (risk_per_lot_ieee entry stop1) (risk_per_lot_ieee entry stop2)"
    and pos: "\<not> fle (risk_per_lot_ieee entry stop1) (Finite 0)"
    and def1: "lots_by_risk entry stop1 risk_amount \<noteq> None"
  shows "calculate_position_size_ieee balance entry stop2 risk_amount
           \<le> calculate_position_size_ieee balance entry stop1 risk_amount"
proof -
  obtain n1 where n1: "lots_by_risk entry stop1 risk_amount = Some n1"
    using def1 by blast
  obtain n2 where n2: "lots_by_risk entry stop2 risk_amount = Some n2"
    and le: "(if n2 < 1 then 1 else n2) \<le> (if n1 < 1 then 1 else n1)"
    using lots_for_antimono [OF ord pos n1 [unfolded lots_by_risk_lots_for]]
    by (auto simp: lots_by_risk_lots_for)
  have pos2: "\<not> fle (risk_per_lot_ieee entry stop2) (Finite 0)"
  proof
    assume "fle (risk_per_lot_ieee entry stop2) (Finite 0)"
    with ord have "fle (risk_per_lot_ieee entry stop1) (Finite 0)" by (rule fle_trans)
    with pos show False by simp
  qed
  show ?thesis
    using pos pos2 n1 n2 le
    by (cases "lots_by_balance balance entry")
       (simp_all add: calculate_position_size_ieee_def Let_def del: if_split)
qed

lemma round_double_85: "round_double (85) = Finite (85)"
proof -
  have "round_double (85) = Finite (of_int 5981343255101440 * pow2 (6 - 52))"
    by (rule round_double_normalI) (simp_all add: pow2_def small_less_pow2_1024 [unfolded pow2_def])
  then show ?thesis by (simp add: pow2_def)
qed

lemma round_double_90: "round_double (90) = Finite (90)"
proof -
  have "round_double (90) = Finite (of_int 6333186975989760 * pow2 (6 - 52))"
    by (rule round_double_normalI) (simp_all add: pow2_def small_less_pow2_1024 [unfolded pow2_def])
  then show ?thesis by (simp add: pow2_def)
qed

lemma round_double_10: "round_double (10) = Finite (10)"
proof -
  have "round_double (10) = Finite (of_int 5629499534213120 * pow2 (3 - 52))"
    by (rule round_double_normalI) (simp_all add: pow2_def small_less_pow2_1024 [unfolded pow2_def])
  then show ?thesis by (simp add: pow2_def)
qed

lemma round_double_15: "round_double (15) = Finite (15)"
proof -
  have "round_double (15) = Finite (of_int 8444249301319680 * pow2 (3 - 52))"
    by (rule round_double_normalI) (simp_all add: pow2_def small_less_pow2_1024 [unfolded pow2_def])
  then show ?thesis by (simp add: pow2_def)
qed

lemma round_double_50: "round_double (50) = Finite (50)"
proof -
  have "round_double (50) = Finite (of_int 7036874417766400 * pow2 (5 - 52))"
    by (rule round_double_normalI) (simp_all add: pow2_def small_less_pow2_1024 [unfolded pow2_def])
  then show ?thesis by (simp add: pow2_def)
qed

lemma round_double_500: "round_double (500) = Finite (500)"
proof -
  have "round_double (500) = Finite (of_int 8796093022208000 * pow2 (8 - 52))"
    by (rule round_double_normalI) (simp_all add: pow2_def small_less_pow2_1024 [unfolded pow2_def])
  then show ?thesis by (simp add: pow2_def)
qed

lemma round_double_750: "round_double (750) = Finite (750)"
proof -
  have "round_double (750) = Finite (of_int 6597069766656000 * pow2 (9 - 52))"
    by (rule round_double_normalI) (simp_all add: pow2_def small_less_pow2_1024 [unfolded pow2_def])
  then show ?thesis by (simp add: pow2_def)
qed

lemma round_double_3000: "round_double (3000) = Finite (3000)"
proof -
  have "round_double (3000) = Finite (of_int 6597069766656000 * pow2 (11 - 52))"
    by (rule round_double_normalI) (simp_all add: pow2_def small_less_pow2_1024 [unfolded pow2_def])
  then show ?thesis by (simp add: pow2_def)
qed

lemma round_double_6: "round_double (6) = Finite (6)"
proof -
  have "round_double (6) = Finite (of_int 6755399441055744 * pow2 (2 - 52))"
    by (rule round_double_normalI) (simp_all add: pow2_def small_less_pow2_1024 [unfolded pow2_def])
  then show ?thesis by (simp add: pow2_def)
qed

lemma round_double_4: "round_double (4) = Finite (4)"
proof -
  have "round_double (4) = Finite (of_int 4503599627370496 * pow2 (2 - 52))"
    by (rule round_double_normalI) (simp_all add: pow2_def small_less_pow2_1024 [unfolded pow2_def])
  then show ?thesis by (simp add: pow2_def)
qed

lemma round_double_2: "round_double (2) = Finite (2)"
proof -
  have "round_double (2) = Finite (of_int 4503599627370496 * pow2 (1 - 52))"
    by (rule round_double_normalI) (simp_all add: pow2_def small_less_pow2_1024 [unfolded pow2_def])
  then show ?thesis by (simp add: pow2_def)
qed

lemma round_double_20: "round_double (20) = Finite (20)"
proof -
  have "round_double (20) = Finite (of_int 5629499534213120 * pow2 (4 - 52))"
    by (rule round_double_normalI) (simp_all add: pow2_def small_less_pow2_1024 [unfolded pow2_def])
  then show ?thesis by (simp add: pow2_def)
qed

lemma round_double_5000: "round_double (5000) = Finite (5000)"
proof -
  have "round_double (5000) = Finite (of_int 5497558138880000 * pow2 (12 - 52))"
    by (rule round_double_normalI) (simp_all add: pow2_def small_less_pow2_1024 [unfolded pow2_def])
  then show ?thesis by (simp add: pow2_def)
qed

lemma round_double_100000: "round_double (100000) = Finite (100000)"
proof -
  have "round_double (100000) = Finite (of_int 6871947673600000 * pow2 (16 - 52))"
    by (rule round_double_normalI) (simp_all add: pow2_def small_less_pow2_1024 [unfolded pow2_def])
  then show ?thesis by (simp add: pow2_def)
qed

lemma round_double_1000000: "round_double (1000000) = Finite (1000000)"
proof -
  have "round_double (1000000) = Finite (of_int 8589934592000000 * pow2 (19 - 52))"
    by (rule round_double_normalI) (simp_all add: pow2_def small_less_pow2_1024 [unfolded pow2_def])
  then show ?thesis by (simp add: pow2_def)
qed

lemma round_double_10000: "round_double (10000) = Finite (10000)"
proof -
  have "round_double (10000) = Finite (of_int 5497558138880000 * pow2 (13 - 52))"
    by (rule round_double_normalI) (simp_all add: pow2_def small_less_pow2_1024 [unfolded pow2_def])
  then show ?thesis by (simp add: pow2_def)
qed

lemma round_double_stop_near_entry: "round_double (12799 / 128) = Finite (12799 / 128)"
proof -
  have "round_double (12799 / 128) = Finite (of_int 7036324661952512 * pow2 (6 - 52))"
    by (rule round_double_normalI) (simp_all add: pow2_def small_less_pow2_1024 [unfolded pow2_def])
  then show ?thesis by (simp add: pow2_def)
qed

lemma round_double_1_128: "round_double (1 / 128) = Finite (1 / 128)"
proof -
  have "round_double (1 / 128) = Finite (of_int 4503599627370496 * pow2 (- 7 - 52))"
    by (rule round_double_normalI) (simp_all add: pow2_def small_less_pow2_1024 [unfolded pow2_def])
  then show ?thesis by (simp add: pow2_def)
qed

lemma round_double_25_64: "round_double (25 / 64) = Finite (25 / 64)"
proof -
  have "round_double (25 / 64) = Finite (of_int 7036874417766400 * pow2 (- 2 - 52))"
    by (rule round_double_normalI) (simp_all add: pow2_def small_less_pow2_1024 [unfolded pow2_def])
  then show ?thesis by (simp add: pow2_def)
qed

lemma round_double_tenth: "round_double (1 / 10) = Finite (7205759403792794 * pow2 (-56))"
proof -
  have "round_double (1 / 10) = Finite (of_int 7205759403792794 * pow2 (- 4 - 52))"
    by (rule round_double_normalI) (simp_all add: pow2_def small_less_pow2_1024 [unfolded pow2_def])
  then show ?thesis by (simp add: pow2_def)
qed

lemma round_double_pow2:
  assumes "- 1022 \<le> e" and "e \<le> 1023"
  shows "round_double (pow2 e) = Finite (pow2 e)"
proof -
  have m: "pow2 52 \<le> of_int (2 ^ 52)" "of_int (2 ^ 52) < pow2 53" by (simp_all add: pow2_def)
  have p: "of_int (2 ^ 52) * pow2 (e - 52) = pow2 e"
    using pow2_add [of 52 "e - 52"] by (simp add: pow2_def)
  have "round_magnitude (pow2 e) = pow2 e"
    using round_magnitude_normal_exact [OF assms m] by (simp only: p)
  moreover have "pow2 e < pow2 1024" using assms(2) by (intro pow2_strict_mono) simp
  ultimately show ?thesis
    using round_double_nonneg_cases [of "pow2 e"] pow2_nonneg [of e] by auto
qed

lemma round_double_overflow:
  assumes "pow2 1024 \<le> x"
  shows "round_double x = PlusInf"
proof -
  have "0 \<le> x" using assms pow2_nonneg [of 1024] by linarith
  moreover have "pow2 1024 \<le> round_magnitude x" using assms by (rule round_magnitude_huge)
  ultimately show ?thesis using round_double_nonneg_cases [of x] by auto
qed

lemma round_double_at_least_2:
  assumes "2 \<le> x" and "x \<le> max_double"
  obtains v where "round_double x = Finite v" and "2 \<le> v"
proof -
  have "\<bar>x\<bar> \<le> max_double" using assms by simp
  then obtain v where v: "round_double x = Finite v"
    using round_double_finite(1) [of x] by blast
  have "fle (round_double 2) (round_double x)" using assms(1) by (rule round_double_mono)
  then have "2 \<le> v" by (simp add: v round_double_2)
  with v show ?thesis using that by blast
qed

lemma round_double_tenth_of_100000:
  "round_double (720575940379279400000 * pow2 (- 56)) = Finite 10000"
proof -
  have "round_double (720575940379279400000 * pow2 (- 56))
          = Finite (of_int (10000 * 2 ^ 39) * pow2 (13 - 52))"
    by (rule round_double_normalI) (simp_all add: pow2_def small_less_pow2_1024 [unfolded pow2_def])
  then show ?thesis by (simp add: pow2_def)
qed

lemma round_double_tenth_of_1000000:
  "round_double (7205759403792794000000 * pow2 (- 56)) = Finite 100000"
proof -
  have "round_double (7205759403792794000000 * pow2 (- 56))
          = Finite (of_int (100000 * 2 ^ 36) * pow2 (16 - 52))"
    by (rule round_double_normalI) (simp_all add: pow2_def small_less_pow2_1024 [unfolded pow2_def])
  then show ?thesis by (simp add: pow2_def)
qed

lemma risk_per_lot_ieee_100_85: "risk_per_lot_ieee 100 85 = Finite 750"
  by (simp add: risk_per_lot_ieee_def fsub_def round_double_100 round_double_85 round_double_15
      round_double_750)

lemma risk_per_lot_ieee_100_90: "risk_per_lot_ieee 100 90 = Finite 500"
  by (simp add: risk_per_lot_ieee_def fsub_def round_double_100 round_double_90 round_double_10
      round_double_500)

lemma risk_per_lot_ieee_100_100: "risk_per_lot_ieee 100 100 = Finite 0"
  by (simp add: risk_per_lot_ieee_def fsub_def round_double_100)

lemma risk_per_lot_ieee_near: "risk_per_lot_ieee 100 (12799 / 128) = Finite (25 / 64)"
  by (simp add: risk_per_lot_ieee_def fsub_def round_double_100 round_double_stop_near_entry
      round_double_1_128 round_double_25_64)

lemma lots_by_risk_100_85: "lots_by_risk 100 85 3000 = Some 4"
  by (simp add: lots_by_risk_def risk_per_lot_ieee_100_85 round_double_3000 round_double_4)

lemma lots_by_risk_100_90: "lots_by_risk 100 90 3000 = Some 6"
  by (simp add: lots_by_risk_def risk_per_lot_ieee_100_90 round_double_3000 round_double_6)

lemma lots_by_balance_100000: "lots_by_balance 100000 100 = Some 2"
  by (simp add: lots_by_balance_def round_double_100000 round_double_100 round_double_tenth
      round_double_tenth_of_100000 round_double_5000 round_double_2)

lemma lots_by_balance_1000000: "lots_by_balance 1000000 100 = Some 20"
  by (simp add: lots_by_balance_def round_double_1000000 round_double_100 round_double_tenth
      round_double_tenth_of_1000000 round_double_5000 round_double_20)

lemma lots_by_risk_overflow: "lots_by_risk 100 (12799 / 128) (pow2 1023) = None"
proof -
  have "pow2 1024 = 2 * pow2 1023" using pow2_add [of 1 1023] by (simp add: pow2_1)
  then have "pow2 1024 \<le> pow2 1023 * 64 / 25" using pow2_nonneg [of 1023] by simp
  then have "round_double (pow2 1023 * 64 / 25) = PlusInf" by (rule round_double_overflow)
  then show ?thesis
    by (simp add: lots_by_risk_def risk_per_lot_ieee_near round_double_pow2)
qed

lemma lots_by_risk_huge_budget:
  obtains n where "lots_by_risk 100 85 (pow2 1023) = Some n" and "2 \<le> n"
proof -
  have "pow2 11 \<le> pow2 1023" by (intro two_powi_mono) simp
  then have lo: "2 \<le> pow2 1023 / 750" by (simp add: pow2_def)
  have "pow2 1023 / 750 \<le> pow2 1023" using pow2_nonneg [of 1023] by (simp add: field_simps)
  then have hi: "pow2 1023 / 750 \<le> max_double" using max_double_ge by linarith
  obtain v where v: "round_double (pow2 1023 / 750) = Finite v" and v2: "2 \<le> v"
    using round_double_at_least_2 [OF lo hi] by blast
  have "py_int 2 \<le> py_int v" using v2 by (rule py_int_mono)
  then have "2 \<le> py_int v" by simp
  moreover have "lots_by_risk 100 85 (pow2 1023) = Some (py_int v)"
    by (simp add: lots_by_risk_def risk_per_lot_ieee_100_85 round_double_pow2 v py_int_def)
  ultimately show ?thesis using that by blast
qed

lemma is_double_100: "is_double 100"
  by (simp add: is_double_def round_double_100)

lemma is_double_90: "is_double 90"
  by (simp add: is_double_def round_double_90)

lemma is_double_85: "is_double 85"
  by (simp add: is_double_def round_double_85)

lemma is_double_near: "is_double (12799 / 128)"
  by (simp add: is_double_def round_double_stop_near_entry)

lemma risk_per_lot_ieee_antimono:
  assumes "is_double entry" and "is_double stop1" and "is_double stop2"
    and "\<bar>entry - stop1\<bar> \<le> \<bar>entry - stop2\<bar>"
  shows "fle (risk_per_lot_ieee entry stop1) (risk_per_lot_ieee entry stop2)"
proof -
  have d: "fabs (fsub (round_double entry) (round_double s)) = round_double \<bar>entry - s\<bar>"
    if "is_double s" for s
    using assms(1) that by (simp add: is_double_def fsub_def fabs_round_double)
  have "fle (round_double \<bar>entry - stop1\<bar>) (round_double \<bar>entry - stop2\<bar>)"
    using assms(4) by (rule round_double_mono)
  moreover have "fle (Finite 0) (round_double \<bar>entry - stop1\<bar>)"
    by (rule round_double_sign) simp
  ultimately show ?thesis
    unfolding risk_per_lot_ieee_def d [OF assms(2)] d [OF assms(3)] by (rule fmul_50_mono)
qed

text \<open>The sizing of scenario A computes the same quantities in doubles.\<close>

lemma round_double_200000: "round_double 200000 = Finite 200000"
proof -
  have "round_double 200000 = Finite (of_int (200000 * 2 ^ 35) * pow2 (17 - 52))"
    by (rule round_double_normalI) (simp_all add: pow2_def small_less_pow2_1024 [unfolded pow2_def])
  then show ?thesis by (simp add: pow2_def)
qed

lemma round_double_20000: "round_double 20000 = Finite 20000"
proof -
  have "round_double 20000 = Finite (of_int (20000 * 2 ^ 38) * pow2 (14 - 52))"
    by (rule round_double_normalI) (simp_all add: pow2_def small_less_pow2_1024 [unfolded pow2_def])
  then show ?thesis by (simp add: pow2_def)
qed

lemma round_double_tenth_of_200000:
  "round_double (1441151880758558800000 * pow2 (- 56)) = Finite 20000"
proof -
  have "round_double (1441151880758558800000 * pow2 (- 56))
          = Finite (of_int (20000 * 2 ^ 38) * pow2 (14 - 52))"
    by (rule round_double_normalI) (simp_all add: pow2_def small_less_pow2_1024 [unfolded pow2_def])
  then show ?thesis by (simp add: pow2_def)
qed

lemma lots_by_balance_200000: "lots_by_balance 200000 100 = Some 4"
  by (simp add: lots_by_balance_def round_double_200000 round_double_100 round_double_tenth
      round_double_tenth_of_200000 round_double_5000 round_double_4)

lemma scenario_a_in_doubles:
  "risk_per_lot_ieee 100 85 = Finite 750
   \<and> lots_by_risk 100 85 3000 = Some 4
   \<and> calculate_position_size_ieee 200000 100 85 3000 = 4
   \<and> calculate_position_size_ieee 100000 100 85 3000 = 2"
  by (simp add: calculate_position_size_ieee_def risk_per_lot_ieee_100_85 lots_by_risk_100_85
      lots_by_balance_200000 lots_by_balance_100000)

text \<open>
  Rounding can lower the quantity below the exact quotient: with entry 0.8, stop 0.7 and
  the risk budget 10 the risk per lot computed in doubles is just above 5, the quotient is
  just below 2 and truncates to 1.
\<close>

lemma sizing_rounds_below_exact:
  "calculate_position_size_ieee 100000 0.8 0.7 10 = 1
   \<and> calculate_position_size 100000 0.8 0.7 10 = 2"
proof -
  define a :: real where "a = 7205759403792794 * pow2 (- 53)"
  define b :: real where "b = 6305039478318694 * pow2 (- 53)"
  define d :: real where "d = 7205759403792800 * pow2 (- 56)"
  define r :: real where "r = 5629499534213125 * pow2 (- 50)"
  define q :: real where "q = 9007199254740984 * pow2 (- 52)"
  have ra: "round_double (4 / 5) = Finite a"
  proof -
    have "round_double (4 / 5) = Finite (of_int 7205759403792794 * pow2 (- 1 - 52))"
      by (rule round_double_normalI)
         (simp_all add: pow2_def small_less_pow2_1024 [unfolded pow2_def])
    then show ?thesis by (simp add: a_def)
  qed
  have rb: "round_double (7 / 10) = Finite b"
  proof -
    have "round_double (7 / 10) = Finite (of_int 6305039478318694 * pow2 (- 1 - 52))"
      by (rule round_double_normalI)
         (simp_all add: pow2_def small_less_pow2_1024 [unfolded pow2_def])
    then show ?thesis by (simp add: b_def)
  qed
  have rdiff: "round_double (a - b) = Finite d"
  proof -
    have "round_double (a - b) = Finite (of_int 7205759403792800 * pow2 (- 4 - 52))"
      by (rule round_double_normalI)
         (simp_all add: a_def b_def pow2_def small_less_pow2_1024 [unfolded pow2_def])
    then show ?thesis by (simp add: d_def)
  qed
  have dpos: "\<bar>d\<bar> = d" by (simp add: d_def pow2_def)
  have rr: "round_double (d * 50) = Finite r"
  proof -
    have "round_double (d * 50) = Finite (of_int 5629499534213125 * pow2 (2 - 52))"
      by (rule round_double_normalI)
         (simp_all add: d_def pow2_def small_less_pow2_1024 [unfolded pow2_def])
    then show ?thesis by (simp add: r_def)
  qed
  have rpos: "0 < r" "r \<noteq> 0" by (simp_all add: r_def pow2_def)
  have rq: "round_double (10 / r) = Finite q"
  proof -
    have "round_double (10 / r) = Finite (of_int 9007199254740984 * pow2 (0 - 52))"
      by (rule round_double_normalI)
         (simp_all add: r_def pow2_def small_less_pow2_1024 [unfolded pow2_def])
    then show ?thesis by (simp add: q_def)
  qed
  have qt: "py_int q = 1" by (simp add: q_def py_int_def pow2_def)
  have r40: "round_double (a * 50) = Finite 40"
  proof -
    have "round_double (a * 50) = Finite (of_int (40 * 2 ^ 47) * pow2 (5 - 52))"
      by (rule round_double_normalI)
         (simp_all add: a_def pow2_def small_less_pow2_1024 [unfolded pow2_def])
    then show ?thesis by (simp add: pow2_def)
  qed
  have r250: "round_double 250 = Finite 250"
  proof -
    have "round_double 250 = Finite (of_int (250 * 2 ^ 45) * pow2 (7 - 52))"
      by (rule round_double_normalI)
         (simp_all add: pow2_def small_less_pow2_1024 [unfolded pow2_def])
    then show ?thesis by (simp add: pow2_def)
  qed
  have rpl: "risk_per_lot_ieee (4 / 5) (7 / 10) = Finite r"
    by (simp add: risk_per_lot_ieee_def fsub_def ra rb rdiff dpos rr)
  have lr: "lots_by_risk (4 / 5) (7 / 10) 10 = Some 1"
    using rpos qt by (simp add: lots_by_risk_def rpl round_double_10 rq py_int_def)
  have lb: "lots_by_balance 100000 (4 / 5) = Some 250"
    by (simp add: lots_by_balance_def round_double_100000 round_double_tenth
        round_double_tenth_of_100000 ra r40 r250)
  have ieee: "calculate_position_size_ieee 100000 0.8 0.7 10 = 1"
    using rpos by (simp add: calculate_position_size_ieee_def rpl lr lb)
  have exact: "calculate_position_size 100000 0.8 0.7 10 = 2"
    by (simp add: calculate_position_size_def risk_per_lot_def py_int_def Let_def)
  show ?thesis using ieee exact by simp
qed

section \<open>Trailing stop\<close>

text \<open>
  C3, as stated, fails in the double arithmetic of the program. With the trailing
  fraction 2^-60, strictly between 0 and 1, the difference 1 - f rounds to 1.0: the level
  computed from the price 100 is 100 itself, the comparison \<^verbatim>\<open>current_price <= trailing_stop\<close>
  holds, both checks fire and the monitor chain reports TRAILING_STOP. With the fraction
  0.05 that both traders store in every setup, the smallest positive double 2^-1074
  times 0.95 rounds back to 2^-1074, and both checks fire at that price.
\<close>

theorem trailing_stop_fires_counterexample:
  "trailing_stop (p_setup tiny_fraction_position)
   \<and> 0 < trailing_stop_percentage (p_setup tiny_fraction_position)
   \<and> trailing_stop_percentage (p_setup tiny_fraction_position) < 1
   \<and> should_exit_trailing_stop tiny_fraction_position 100
   \<and> intraday_should_exit_trailing_stop tiny_fraction_position 100
   \<and> map_option d_reason (ce_pe_exit_check ''T1'' tiny_fraction_position 100 0)
        = Some ''TRAILING_STOP''
   \<and> trailing_stop (p_setup (example_position BUY 100 85 130 1))
   \<and> trailing_stop_percentage (p_setup (example_position BUY 100 85 130 1)) = 0.05
   \<and> 0 < min_subnormal
   \<and> should_exit_trailing_stop (example_position BUY 100 85 130 1) min_subnormal
   \<and> intraday_should_exit_trailing_stop (example_position BUY 100 85 130 1) min_subnormal"
proof -
  have frac: "0 < pow2 (- 60)" "pow2 (- 60) < 1"
    using pow2_strict_mono [of "- 60" 0] by simp_all
  have a: "should_exit_trailing_stop tiny_fraction_position 100"
    "intraday_should_exit_trailing_stop tiny_fraction_position 100"
    by (simp_all add: should_exit_trailing_stop_def intraday_should_exit_trailing_stop_def
        tiny_fraction_position_simps Let_def round_double_100 round_double_2_60 fsub_def
        round_double_near_one)
  have b: "map_option d_reason (ce_pe_exit_check ''T1'' tiny_fraction_position 100 0)
        = Some ''TRAILING_STOP''"
    using a(1)
    by (simp add: ce_pe_exit_check_def should_exit_ce_pe_stop_loss_def
        should_exit_ce_pe_target_def should_exit_time_based_def tiny_fraction_position_simps)
  have c: "should_exit_trailing_stop (example_position BUY 100 85 130 1) min_subnormal"
    "intraday_should_exit_trailing_stop (example_position BUY 100 85 130 1) min_subnormal"
    by (simp_all add: should_exit_trailing_stop_def intraday_should_exit_trailing_stop_def
        example_position_simps Let_def min_subnormal_def round_double_min_subnormal
        round_double_twentieth fsub_def round_double_0_95 round_double_subnormal_level)
  show ?thesis
    using a b c frac by (simp add: tiny_fraction_position_simps example_position_simps min_subnormal_def)
qed

text \<open>
  C3, amended. For a position whose setup has the trailing stop enabled with a trailing
  fraction f, 2^-51 \<le> f < 1 (in particular the 0.05 that both traders store), and for
  every current price from the smallest positive normal double 2^-1022 to the largest
  finite double, the level that either trader computes in doubles from the current price
  lies strictly on the far side of that price, and the trailing-stop check returns False
  for BUY and for SELL positions: the trailing stop does not fire.
\<close>

theorem trailing_stop_silent_in_range:
  assumes "trailing_stop (p_setup pos)"
    and "pow2 (- 51) \<le> trailing_stop_percentage (p_setup pos)"
    and "trailing_stop_percentage (p_setup pos) < 1"
    and "pow2 (- 1022) \<le> current_price"
    and "current_price \<le> max_double"
  shows "\<not> should_exit_trailing_stop pos current_price
       \<and> \<not> intraday_should_exit_trailing_stop pos current_price"
  using trailing_level_rounding [OF assms(2-5)] assms(1)
  by (simp add: should_exit_trailing_stop_def intraday_should_exit_trailing_stop_def Let_def)

theorem trailing_stop_silent_in_range_witness:
  "trailing_stop (p_setup (example_position BUY 100 85 130 1))
   \<and> pow2 (- 51) \<le> trailing_stop_percentage (p_setup (example_position BUY 100 85 130 1))
   \<and> trailing_stop_percentage (p_setup (example_position BUY 100 85 130 1)) < 1
   \<and> pow2 (- 1022) \<le> 110 \<and> 110 \<le> max_double
   \<and> \<not> should_exit_trailing_stop (example_position BUY 100 85 130 1) 110
   \<and> \<not> intraday_should_exit_trailing_stop (example_position BUY 100 85 130 1) 110"
proof -
  have f: "pow2 (- 51) \<le> 0.05" by (simp add: pow2_def)
  have lo: "pow2 (- 1022) \<le> 110" using unit_roundoff(5) by linarith
  have "pow2 7 \<le> pow2 1023" by (rule two_powi_mono) simp
  then have "128 \<le> max_double" using max_double_ge by (simp add: pow2_def)
  then have hi: "110 \<le> max_double" by linarith
  show ?thesis
    using trailing_stop_silent_in_range [of "example_position BUY 100 85 130 1" 110] f lo hi
    by (simp add: example_position_simps)
qed


section \<open>Position sizing\<close>



text \<open>
  C9, as stated, fails in two ways. A stop equal to the entry has the risk per lot 0 and
  gets the quantity 0 (the guard \<^verbatim>\<open>risk_per_lot <= 0\<close>), less than the quantity 2 of the
  wider stop 85. And when the quotient \<^verbatim>\<open>risk_amount / risk_per_lot\<close> overflows to
  infinity, \<^verbatim>\<open>int\<close> raises OverflowError and the \<^verbatim>\<open>except\<close> clause returns 1: with the risk
  budget 2^1023 and the entry 100, the stop 99.9921875 (risk per lot 0.390625) gets the
  quantity 1, less than the quantity 2 of the wider stop 85.
\<close>

theorem sizing_counterexample_ieee:
  "is_double 100 \<and> is_double (12799 / 128) \<and> is_double 85
   \<and> calculate_position_size_ieee 100000 100 100 3000 = 0
   \<and> calculate_position_size_ieee 100000 100 85 3000 = 2
   \<and> \<bar>100 - 12799 / 128 :: real\<bar> < \<bar>100 - 85\<bar>
   \<and> lots_by_risk 100 (12799 / 128) (pow2 1023) = None
   \<and> calculate_position_size_ieee 100000 100 (12799 / 128) (pow2 1023) = 1
   \<and> calculate_position_size_ieee 100000 100 85 (pow2 1023) = 2"
proof -
  have a: "calculate_position_size_ieee 100000 100 100 3000 = 0"
    by (simp add: calculate_position_size_ieee_def risk_per_lot_ieee_100_100)
  have b: "calculate_position_size_ieee 100000 100 85 3000 = 2"
    by (simp add: calculate_position_size_ieee_def risk_per_lot_ieee_100_85 lots_by_risk_100_85
        lots_by_balance_100000)
  have c: "calculate_position_size_ieee 100000 100 (12799 / 128) (pow2 1023) = 1"
    by (simp add: calculate_position_size_ieee_def risk_per_lot_ieee_near lots_by_risk_overflow)
  obtain n where n: "lots_by_risk 100 85 (pow2 1023) = Some n" "2 \<le> n"
    by (rule lots_by_risk_huge_budget)
  have d: "calculate_position_size_ieee 100000 100 85 (pow2 1023) = 2"
    using n(2)
    by (simp add: calculate_position_size_ieee_def risk_per_lot_ieee_100_85 n(1)
        lots_by_balance_100000)
  show ?thesis
    using a b c d by (simp add: is_double_100 is_double_near is_double_85 lots_by_risk_overflow)
qed

text \<open>
  C9, amended. In the double arithmetic of the program, for a fixed risk budget, entry
  price and account balance, and two stop prices with
  |entry - stop1| \<le> |entry - stop2| (entry and stops being doubles): when the risk per
  lot computed for stop1 is strictly positive and \<^verbatim>\<open>int(risk_amount / risk_per_lot)\<close>
  raises no exception for stop1, the quantity for stop1 is never smaller than the
  quantity for stop2.
\<close>

theorem sizing_monotone_ieee:
  assumes "is_double entry" and "is_double stop1" and "is_double stop2"
    and "\<bar>entry - stop1\<bar> \<le> \<bar>entry - stop2\<bar>"
    and "\<not> fle (risk_per_lot_ieee entry stop1) (Finite 0)"
    and "lots_by_risk entry stop1 risk_amount \<noteq> None"
  shows "calculate_position_size_ieee balance entry stop2 risk_amount
           \<le> calculate_position_size_ieee balance entry stop1 risk_amount"
  using risk_per_lot_ieee_antimono [OF assms(1-4)] assms(5,6)
  by (rule sizing_antimono_in_risk_per_lot)

theorem sizing_monotone_ieee_witness:
  "is_double 100 \<and> is_double 90 \<and> is_double 85
   \<and> \<bar>100 - 90 :: real\<bar> \<le> \<bar>100 - 85\<bar>
   \<and> \<not> fle (risk_per_lot_ieee 100 90) (Finite 0)
   \<and> lots_by_risk 100 90 3000 \<noteq> None
   \<and> calculate_position_size_ieee 1000000 100 85 3000
        \<le> calculate_position_size_ieee 1000000 100 90 3000
   \<and> calculate_position_size_ieee 1000000 100 85 3000 = 4
   \<and> calculate_position_size_ieee 1000000 100 90 3000 = 6"
proof -
  have h: "is_double 100" "is_double 90" "is_double 85" "\<bar>100 - 90 :: real\<bar> \<le> \<bar>100 - 85\<bar>"
    "\<not> fle (risk_per_lot_ieee 100 90) (Finite 0)" "lots_by_risk 100 90 3000 \<noteq> None"
    by (simp_all add: is_double_100 is_double_90 is_double_85 risk_per_lot_ieee_100_90
        lots_by_risk_100_90)
  have a: "calculate_position_size_ieee 1000000 100 85 3000 = 4"
    by (simp add: calculate_position_size_ieee_def risk_per_lot_ieee_100_85 lots_by_risk_100_85
        lots_by_balance_1000000)
  have b: "calculate_position_size_ieee 1000000 100 90 3000 = 6"
    by (simp add: calculate_position_size_ieee_def risk_per_lot_ieee_100_90 lots_by_risk_100_90
        lots_by_balance_1000000)
  from sizing_monotone_ieee [OF h, of 1000000] h a b show ?thesis by simp
qed

section \<open>Exit precedence\<close>

text \<open>
  C1. For every open position and every (price, time) tick, the monitor functions of
  both traders check stop-loss, target, time-based and trailing-stop in this order and
  the first condition that holds gives the single reason reported for the position; a
  position has at most one exit decision per tick, and when the stop-loss and the target
  condition hold together the reason is STOP_LOSS.
\<close>

theorem exit_precedence:
  assumes "distinct (map fst (intraday_positions s))"
    and "(tid, pos) \<in> set (intraday_positions s)"
  shows "map d_reason (filter (\<lambda>d. d_trade_id d = tid) (monitor_ce_pe_positions ct s cp))
           = spec_first_match (should_exit_ce_pe_stop_loss pos cp) (should_exit_ce_pe_target pos cp)
               (should_exit_time_based pos ct) (should_exit_trailing_stop pos cp)
       \<and> map d_reason (filter (\<lambda>d. d_trade_id d = tid) (monitor_intraday_positions ct s cp))
           = spec_first_match (should_exit_intraday_stop_loss pos cp) (should_exit_intraday_target pos cp)
               (intraday_should_exit_time_based pos ct) (intraday_should_exit_trailing_stop pos cp)
       \<and> length (filter (\<lambda>d. d_trade_id d = tid) (monitor_ce_pe_positions ct s cp)) \<le> 1
       \<and> length (filter (\<lambda>d. d_trade_id d = tid) (monitor_intraday_positions ct s cp)) \<le> 1
       \<and> (should_exit_ce_pe_stop_loss pos cp \<and> should_exit_ce_pe_target pos cp \<longrightarrow>
            map d_reason (filter (\<lambda>d. d_trade_id d = tid) (monitor_ce_pe_positions ct s cp))
              = [''STOP_LOSS''])
       \<and> (should_exit_intraday_stop_loss pos cp \<and> should_exit_intraday_target pos cp \<longrightarrow>
            map d_reason (filter (\<lambda>d. d_trade_id d = tid) (monitor_intraday_positions ct s cp))
              = [''STOP_LOSS''])"
proof -
  have ce: "filter (\<lambda>d. d_trade_id d = tid) (monitor_ce_pe_positions ct s cp)
              = (case ce_pe_exit_check tid pos cp ct of None \<Rightarrow> [] | Some d \<Rightarrow> [d])"
    unfolding monitor_ce_pe_positions_def by (rule monitor_ce_pe_loop_filter [OF assms])
  have intra: "filter (\<lambda>d. d_trade_id d = tid) (monitor_intraday_positions ct s cp)
              = (case intraday_exit_check tid pos cp ct of None \<Rightarrow> [] | Some d \<Rightarrow> [d])"
    unfolding monitor_intraday_positions_def by (rule monitor_intraday_loop_filter [OF assms])
  show ?thesis
    unfolding ce intra
    by (simp add: ce_pe_exit_check_def intraday_exit_check_def spec_first_match_def)
qed

theorem exit_precedence_witness:
  "distinct (map fst (intraday_positions crossed_trader))
   \<and> (''T1'', crossed_position) \<in> set (intraday_positions crossed_trader)
   \<and> should_exit_ce_pe_stop_loss crossed_position 115
   \<and> should_exit_ce_pe_target crossed_position 115
   \<and> map d_reason (filter (\<lambda>d. d_trade_id d = ''T1'') (monitor_ce_pe_positions 0 crossed_trader 115))
        = [''STOP_LOSS'']
   \<and> map d_reason (filter (\<lambda>d. d_trade_id d = ''T1'') (monitor_intraday_positions 0 crossed_trader 115))
        = [''STOP_LOSS'']"
  using exit_precedence [of crossed_trader "''T1''" crossed_position 0 115]
  by (simp add: crossed_trader_def crossed_position_def init_trader_def example_position_simps
      should_exit_ce_pe_stop_loss_def should_exit_ce_pe_target_def
      should_exit_intraday_stop_loss_def should_exit_intraday_target_def spec_first_match_def)


section \<open>Admission ordering\<close>

text \<open>
  C2, as stated, fails where an earlier check of the fixed order fails too: with the
  CALL cap and the daily loss limit both violated, the reason reported is the total cap
  when five positions are open, and the closed market outside market hours.
\<close>

theorem admission_order_counterexample:
  "max_ce_positions five_positions_trader \<le> ce_positions five_positions_trader
   \<and> \<bar>daily_pnl five_positions_trader\<bar> > account_balance five_positions_trader * 0.05
   \<and> can_place_ce_pe_trade ten_o_clock five_positions_trader CALL False
        = (False, ''Maximum intraday positions (5) reached'')
   \<and> snd (can_place_ce_pe_trade ten_o_clock five_positions_trader CALL False)
        \<noteq> ''Maximum CE positions (3) reached''
   \<and> can_place_ce_pe_trade 0 three_calls_trader CALL False = (False, ''Market is closed'')"
  by (simp add: can_place_ce_pe_trade_def five_positions_trader_def three_calls_trader_def
      init_trader_def)

text \<open>
  C2, amended. In every state in which the cap of the requested class is reached, the
  admission check returns False and never the daily-loss reason; when moreover the
  market is open and the number of open positions is below the total cap, the reason is
  the one of the class cap (CE for CALL, PE for PUT), whether or not the daily loss limit
  is violated. With CALL cap 3 and CALL count 3 that is the maximum-CE-positions reason.
\<close>

theorem class_cap_before_daily_loss:
  assumes "(otype = CALL \<and> max_ce_positions s \<le> ce_positions s)
         \<or> (otype = PUT \<and> max_pe_positions s \<le> pe_positions s)"
  shows "fst (can_place_ce_pe_trade t s otype is_spread) = False
       \<and> snd (can_place_ce_pe_trade t s otype is_spread) \<noteq> ''Daily loss limit reached''
       \<and> (is_market_open t \<and> int (length (intraday_positions s)) < max_intraday_positions s \<longrightarrow>
            can_place_ce_pe_trade t s otype is_spread
              = (False,
                 if otype = CALL
                 then ''Maximum CE positions ('' @ str_int (max_ce_positions s) @ '') reached''
                 else ''Maximum PE positions ('' @ str_int (max_pe_positions s) @ '') reached''))"
  using assms by (auto simp: can_place_ce_pe_trade_def)

theorem class_cap_before_daily_loss_witness:
  "max_ce_positions three_calls_trader = 3 \<and> ce_positions three_calls_trader = 3
   \<and> \<bar>daily_pnl three_calls_trader\<bar> > account_balance three_calls_trader * 0.05
   \<and> is_market_open ten_o_clock
   \<and> int (length (intraday_positions three_calls_trader)) < max_intraday_positions three_calls_trader
   \<and> can_place_ce_pe_trade ten_o_clock three_calls_trader CALL False
        = (False, ''Maximum CE positions (3) reached'')
   \<and> can_place_ce_pe_trade ten_o_clock (three_calls_trader\<lparr>daily_pnl := 0\<rparr>) CALL False
        = (False, ''Maximum CE positions (3) reached'')"
  using class_cap_before_daily_loss [of CALL three_calls_trader ten_o_clock False]
    class_cap_before_daily_loss [of CALL "three_calls_trader\<lparr>daily_pnl := 0\<rparr>" ten_o_clock False]
  by (simp add: three_calls_trader_def init_trader_def)


section \<open>Applying an exit\<close>

text \<open>
  C6. Applying the same exit twice changes the daily P&L exactly once, in both traders:
  for an open position the first application succeeds, adds the realised P&L to the
  daily P&L, removes the position from the open positions and appends it to the history;
  the second application for the same id changes nothing in the state (daily P&L and
  counters included) and is signalled by the result False.
\<close>

theorem exit_applied_once:
  assumes "map_of (intraday_positions s) tid = Some pos"
  shows "(let (r1, s1) = exit_ce_pe_position t1 s tid reason price;
              (r2, s2) = exit_ce_pe_position t2 s1 tid reason price
          in r1 \<and> daily_pnl s1 = daily_pnl s + exit_pnl pos price
             \<and> map_of (intraday_positions s1) tid = None
             \<and> intraday_trades s1
                 = intraday_trades s @ [(pos, make_exit_record t1 tid pos reason price)]
             \<and> \<not> r2 \<and> s2 = s1)
       \<and> (let (r1, s1) = exit_intraday_position t1 s tid reason price;
              (r2, s2) = exit_intraday_position t2 s1 tid reason price
          in r1 \<and> daily_pnl s1 = daily_pnl s + exit_pnl pos price
             \<and> map_of (intraday_positions s1) tid = None
             \<and> intraday_trades s1
                 = intraday_trades s @ [(pos, make_exit_record t1 tid pos reason price)]
             \<and> \<not> r2 \<and> s2 = s1)"
  using assms
  by (simp add: exit_ce_pe_position_def exit_intraday_position_def Let_def)

theorem exit_applied_once_witness:
  "map_of (intraday_positions three_calls_trader) ''T1'' = Some (example_leg ''T1'' CALL)
   \<and> daily_pnl three_calls_trader = - 10000
   \<and> daily_pnl (snd (exit_ce_pe_position ten_o_clock three_calls_trader ''T1'' ''STOP_LOSS'' 84))
        = - 10800
   \<and> daily_pnl (snd (exit_ce_pe_position ten_o_clock
        (snd (exit_ce_pe_position ten_o_clock three_calls_trader ''T1'' ''STOP_LOSS'' 84))
        ''T1'' ''STOP_LOSS'' 84)) = - 10800
   \<and> \<not> fst (exit_ce_pe_position ten_o_clock
        (snd (exit_ce_pe_position ten_o_clock three_calls_trader ''T1'' ''STOP_LOSS'' 84))
        ''T1'' ''STOP_LOSS'' 84)"
  using exit_applied_once [of three_calls_trader "''T1''" "example_leg ''T1'' CALL"
      ten_o_clock "''STOP_LOSS''" 84 ten_o_clock]
  by (simp add: three_calls_lookup exit_pnl_def split_beta Let_def)
     (simp add: three_calls_trader_def init_trader_def)

text \<open>
  C8. For a long (BUY) position with entry 100, stop 85 and target 130 and the tick price
  84, exit evaluation gives a STOP_LOSS decision at the price 84; applying it adds
  (84 - 100) * quantity * 50 to the daily P&L and records that P&L, which is negative
  for a positive quantity. In general the P&L of an exit is
  (exit_price - entry_price) * quantity * 50, times +1 for BUY and -1 for SELL.
\<close>

theorem scenario_b_stop_loss:
  assumes "p_action pos = BUY" and "p_entry_price pos = 100"
    and "stop_loss (p_setup pos) = 85" and "target_price (p_setup pos) = 130"
    and "map_of (intraday_positions s) tid = Some pos"
  shows "ce_pe_exit_check tid pos 84 ct
           = Some \<lparr> d_trade_id = tid, d_reason = ''STOP_LOSS'', d_current_price = 84,
                    d_position = pos \<rparr>
       \<and> fst (exit_ce_pe_position ct s tid ''STOP_LOSS'' 84)
       \<and> daily_pnl (snd (exit_ce_pe_position ct s tid ''STOP_LOSS'' 84))
           = daily_pnl s + (84 - 100) * real_of_int (p_quantity pos) * 50
       \<and> map (\<lambda>(p, x). (x_exit_price x, x_exit_reason x, x_pnl x))
             (intraday_trades (snd (exit_ce_pe_position ct s tid ''STOP_LOSS'' 84)))
           = map (\<lambda>(p, x). (x_exit_price x, x_exit_reason x, x_pnl x)) (intraday_trades s)
             @ [(84, ''STOP_LOSS'', (84 - 100) * real_of_int (p_quantity pos) * 50)]
       \<and> (0 < p_quantity pos \<longrightarrow> (84 - 100) * real_of_int (p_quantity pos) * 50 < 0)
       \<and> exit_pnl pos' x
           = (x - p_entry_price pos') * real_of_int (p_quantity pos') * 50
             * (if p_action pos' = BUY then 1 else - 1)"
proof -
  have check: "ce_pe_exit_check tid pos 84 ct
           = Some \<lparr> d_trade_id = tid, d_reason = ''STOP_LOSS'', d_current_price = 84,
                    d_position = pos \<rparr>"
    using assms(1,3) by (simp add: ce_pe_exit_check_def should_exit_ce_pe_stop_loss_def)
  have pnl: "exit_pnl pos 84 = (84 - 100) * real_of_int (p_quantity pos) * 50"
    using assms(1,2) by (simp add: exit_pnl_def)
  have rule: "exit_pnl pos' x
           = (x - p_entry_price pos') * real_of_int (p_quantity pos') * 50
             * (if p_action pos' = BUY then 1 else - 1)"
    by (simp add: exit_pnl_def algebra_simps)
  have neg: "(84 - 100) * real_of_int (p_quantity pos) * 50 < 0" if "0 < p_quantity pos"
    using that by simp
  have ex: "fst (exit_ce_pe_position ct s tid ''STOP_LOSS'' 84)"
    "daily_pnl (snd (exit_ce_pe_position ct s tid ''STOP_LOSS'' 84))
           = daily_pnl s + exit_pnl pos 84"
    "map (\<lambda>(p, x). (x_exit_price x, x_exit_reason x, x_pnl x))
             (intraday_trades (snd (exit_ce_pe_position ct s tid ''STOP_LOSS'' 84)))
           = map (\<lambda>(p, x). (x_exit_price x, x_exit_reason x, x_pnl x)) (intraday_trades s)
             @ [(84, ''STOP_LOSS'', exit_pnl pos 84)]"
    using assms(5) by (simp_all add: exit_ce_pe_position_def Let_def make_exit_record_def)
  show ?thesis
    using check ex neg rule unfolding pnl by blast
qed

theorem scenario_b_stop_loss_witness:
  "p_action (example_leg ''T1'' CALL) = BUY \<and> p_entry_price (example_leg ''T1'' CALL) = 100
   \<and> stop_loss (p_setup (example_leg ''T1'' CALL)) = 85
   \<and> target_price (p_setup (example_leg ''T1'' CALL)) = 130
   \<and> map_of (intraday_positions three_calls_trader) ''T1'' = Some (example_leg ''T1'' CALL)
   \<and> map d_reason (monitor_ce_pe_positions ten_o_clock
         (three_calls_trader\<lparr>intraday_positions := [(''T1'', example_leg ''T1'' CALL)]\<rparr>) 84)
       = [''STOP_LOSS'']
   \<and> daily_pnl (snd (exit_ce_pe_position ten_o_clock three_calls_trader ''T1'' ''STOP_LOSS'' 84))
       = daily_pnl three_calls_trader - 800"
  using scenario_b_stop_loss [of "example_leg ''T1'' CALL" three_calls_trader "''T1''" ten_o_clock]
  by (simp add: three_calls_lookup monitor_ce_pe_positions_def)


section \<open>Composite trades\<close>

text \<open>
  C7, as stated, fails: nothing in the straddle or strangle builder closes the first
  leg. After a straddle (T1, T2) whose CE leg T1 was exited, a second straddle has its
  CE leg T3 admitted and its PE leg denied by the spread cap; the build returns None and
  T3 stays among the open positions.
\<close>

theorem straddle_rollback_counterexample:
  "can_place_ce_pe_trade ten_o_clock after_exit CALL True = (True, ''OK'')
   \<and> can_place_ce_pe_trade ten_o_clock after_orphan_leg PUT True
        = (False, ''Maximum spread positions (2) reached'')
   \<and> fst (place_straddle_trade (example_env ''T3'') (example_env ''T4'') after_exit
            25000 0 100 100 0.15 0.30 1 None) = None
   \<and> map fst (intraday_positions after_exit) = [''T2'']
   \<and> map fst (intraday_positions
        (snd (place_straddle_trade (example_env ''T3'') (example_env ''T4'') after_exit
                25000 0 100 100 0.15 0.30 1 None))) = [''T2'', ''T3'']"
  by code_simp

text \<open>
  C7, amended. When the CE leg of a strangle (or of a straddle, the same code with
  equal strikes) was opened and the PE leg is not opened (admission denied or order not
  executed), the build returns None and no rollback takes place: the CE leg remains
  among the open positions and stays counted in the CE and spread counters.
\<close>

theorem second_leg_failure_leaves_first_leg:
  assumes ce: "place_ce_pe_intraday_trade e_ce s
                 \<lparr> c_strike_price = strike_ce, c_option_type = CALL, expiry_date = expiry,
                   lot_size = 50, underlying = ''NIFTY50'' \<rparr>
                 BUY entry_ce (Some slp) (Some tp) (Some qty) risk_arg None True = (Some ce, s1)"
    and pe: "place_ce_pe_intraday_trade e_pe s1
                 \<lparr> c_strike_price = strike_pe, c_option_type = PUT, expiry_date = expiry,
                   lot_size = 50, underlying = ''NIFTY50'' \<rparr>
                 BUY entry_pe (Some slp) (Some tp) (Some qty) risk_arg None True = (None, s2)"
  shows "place_strangle_trade e_ce e_pe s strike_ce strike_pe expiry entry_ce entry_pe slp tp qty
           risk_arg = (None, s2)
       \<and> (strike_ce = strike_pe \<longrightarrow>
            place_straddle_trade e_ce e_pe s strike_ce expiry entry_ce entry_pe slp tp qty
              risk_arg = (None, s2))
       \<and> map_of (intraday_positions s2) (p_trade_id ce) = Some ce
       \<and> ce_positions s2 = ce_positions s + 1
       \<and> spread_positions s2 = spread_positions s + 1"
proof -
  have strangle: "place_strangle_trade e_ce e_pe s strike_ce strike_pe expiry entry_ce entry_pe
                    slp tp qty risk_arg = (None, s2)"
    by (simp add: place_strangle_trade_def ce pe)
  have first: "p_trade_id ce = new_trade_id e_ce"
    "intraday_positions s1 = AList.update (new_trade_id e_ce) ce (intraday_positions s)"
    "ce_positions s1 = ce_positions s + 1" "spread_positions s1 = spread_positions s + 1"
    using place_ce_pe_effect [OF ce] by simp_all
  have second: "intraday_positions s2 = intraday_positions s1" "ce_positions s2 = ce_positions s1"
    "spread_positions s2 = spread_positions s1"
    using place_ce_pe_effect [OF pe] by simp_all
  show ?thesis
    using strangle first second by (auto simp: straddle_is_strangle)
qed

theorem second_leg_failure_leaves_first_leg_witness:
  "\<exists>ce. place_ce_pe_intraday_trade (example_env ''T3'') after_exit ce_25000 BUY 100
            (Some 0.15) (Some 0.30) (Some 1) None None True = (Some ce, after_orphan_leg)
      \<and> place_ce_pe_intraday_trade (example_env ''T4'') after_orphan_leg pe_25000 BUY 100
            (Some 0.15) (Some 0.30) (Some 1) None None True = (None, after_orphan_leg)
      \<and> place_straddle_trade (example_env ''T3'') (example_env ''T4'') after_exit
            25000 0 100 100 0.15 0.30 1 None = (None, after_orphan_leg)
      \<and> map_of (intraday_positions after_orphan_leg) (p_trade_id ce) = Some ce
      \<and> ce_positions after_orphan_leg = ce_positions after_exit + 1
      \<and> spread_positions after_orphan_leg = spread_positions after_exit + 1"
proof -
  obtain ce where some: "fst (place_ce_pe_intraday_trade (example_env ''T3'') after_exit ce_25000
            BUY 100 (Some 0.15) (Some 0.30) (Some 1) None None True) = Some ce"
    using orphan_first_leg by blast
  have first: "place_ce_pe_intraday_trade (example_env ''T3'') after_exit ce_25000 BUY 100
            (Some 0.15) (Some 0.30) (Some 1) None None True = (Some ce, after_orphan_leg)"
    using some unfolding after_orphan_leg_def by (simp add: prod_eq_iff)
  note second = orphan_second_leg
  from second_leg_failure_leaves_first_leg
         [OF first [unfolded ce_25000_def] second [unfolded pe_25000_def]]
  show ?thesis
    using first second by auto
qed

section \<open>Counters\<close>

text \<open>
  C10. The counters ce_positions, pe_positions and spread_positions never become
  negative: from a state in which they are non-negative (the initial state has all
  three at zero), every sequence of trade placements, straddles, strangles and exits
  leaves each of them at least zero, whether or not the exits match earlier entries.
\<close>

theorem counters_never_negative:
  assumes "0 \<le> ce_positions s" and "0 \<le> pe_positions s" and "0 \<le> spread_positions s"
  shows "0 \<le> ce_positions (run s ops) \<and> 0 \<le> pe_positions (run s ops)
       \<and> 0 \<le> spread_positions (run s ops)"
  using assms unfolding run_def
proof (induction ops arbitrary: s)
  case Nil
  then show ?case by simp
next
  case (Cons op ops)
  have "0 \<le> ce_positions (apply_operation s op) \<and> 0 \<le> pe_positions (apply_operation s op)
       \<and> 0 \<le> spread_positions (apply_operation s op)"
    using Cons.prems by (intro apply_operation_nonneg) simp
  then show ?case
    using Cons.IH [of "apply_operation s op"] by simp
qed

theorem counters_never_negative_witness:
  "0 \<le> ce_positions init_trader \<and> 0 \<le> pe_positions init_trader
   \<and> 0 \<le> spread_positions init_trader
   \<and> 0 \<le> ce_positions (run init_trader unmatched_exit_run)
   \<and> 0 \<le> pe_positions (run init_trader unmatched_exit_run)
   \<and> 0 \<le> spread_positions (run init_trader unmatched_exit_run)
   \<and> ce_positions (run init_trader unmatched_exit_run) = 1
   \<and> ce_positions uncounted_trader = 0
   \<and> ce_positions (run uncounted_trader [Exit ten_o_clock ''T1'' ''TARGET_HIT'' 130]) = 0"
  using counters_never_negative [of init_trader unmatched_exit_run] run_eval uncounted_eval
  by (simp add: init_counters uncounted_trader_def)

section \<open>Setup validation\<close>

text \<open>
  C5 at a failing input. A BUY with entry 100 and a stop-loss percentage of 0 gives a
  setup whose stop equals its entry (risk 0); \<^verbatim>\<open>place_ce_pe_intraday_trade\<close> builds the
  setup without any check and stores the position as open, while
  \<^verbatim>\<open>place_option_order_with_setup\<close> of the base trader rejects the same entry, stop and
  target.
\<close>

theorem ce_pe_trade_accepts_stop_at_entry:
  "map_option (\<lambda>p. (p_action p, entry_price (p_setup p), stop_loss (p_setup p),
                      target_price (p_setup p), risk (p_setup p)))
     (fst (place_ce_pe_intraday_trade (example_env ''T1'') init_trader example_contract BUY 100
             (Some 0) None (Some 1) None None False))
     = Some (BUY, 100, 100, 130, 0)
   \<and> map fst (intraday_positions
        (snd (place_ce_pe_intraday_trade (example_env ''T1'') init_trader example_contract BUY
                100 (Some 0) None (Some 1) None None False))) = [''T1'']
   \<and> fst (place_option_order_with_setup (example_env ''T1'') init_trader example_contract BUY
            100 100 130 (Some 1) None) = None"
  by code_simp

end
